theory Spec2Isabelle
  imports Main "HOL-Library.Word"
begin

unbundle bit_operations_syntax

section \<open>The local key-management service (pkg/kms/localkms/localkms.go)\<close>

text \<open>
  The development embeds \<^verbatim>\<open>LocalKMS\<close>: \<^verbatim>\<open>Create\<close>, \<^verbatim>\<open>Get\<close>, \<^verbatim>\<open>Rotate\<close>,
  \<^verbatim>\<open>getKeyTemplate\<close>, \<^verbatim>\<open>storeKeySet\<close>, \<^verbatim>\<open>getKeySet\<close> and \<^verbatim>\<open>ExportPubKeyBytes\<close>.
  A Go result \<^verbatim>\<open>(value, error)\<close> is a sum: \<open>Inl e\<close> is the return with a non-nil error
  (every such return of the source carries the zero values \<^verbatim>\<open>""\<close> and \<^verbatim>\<open>nil\<close>), \<open>Inr v\<close> the
  return with a nil error. The storage namespace and the random source are threaded
  through every operation as a \<open>World\<close>, returned updated.

  The collaborators of the file are not part of it: the storage engine, the secret lock
  behind the envelope AEAD, the crypto primitive library (Tink), and three pieces of the
  same package that the file calls (the keyset writer \<^verbatim>\<open>newWriter\<close>, the keyset reader
  \<^verbatim>\<open>newReader\<close>, the public-key writer \<^verbatim>\<open>NewWriter\<close>) together with the constants of
  package \<^verbatim>\<open>kms\<close>. Their contracts are modelled from the specification; what the
  specification leaves open (the bytes a primitive produces, the identifier scheme) is a
  parameter, so that every theorem holds for each implementation of it.
\<close>

subsection \<open>Data\<close>

type_synonym bytes = "8 word list"

text \<open>
  The error kinds of the specification (section 7). \<open>DecodeError\<close> is the codec's failure
  to deserialize an authentic plaintext (section 4.3); \<open>CollaboratorError\<close> carries the
  message of any other error a collaborator returns.
\<close>

datatype error =
    MissingKeyType
  | UnsupportedKeyType
  | InvalidMasterKeyURI
  | LockUnavailable
  | StoreWriteFailed
  | StoreReadFailed
  | NotFound
  | DecryptionFailed
  | NotAsymmetricKey
  | MalformedKeyBytes
  | DecodeError
  | CollaboratorError string

text \<open>
  \<^verbatim>\<open>kms.KeyType\<close> is a Go string type.

  Modelled from the spec: the key-type constants of package \<^verbatim>\<open>kms\<close>, which are declared
  in another file of the repository. Each constant is taken to spell its own name, which
  agrees with the test file: it passes the literal \<^verbatim>\<open>"AES128GCM"\<close> where a valid type is
  needed, expects the ECDSA types to contain \<^verbatim>\<open>"ECDSA"\<close>, and expects \<^verbatim>\<open>""\<close> and
  \<^verbatim>\<open>"unsupported"\<close> to be rejected. (The constants are pairwise different in any case: Go
  rejects a \<^verbatim>\<open>switch\<close> with two equal constant cases.)
\<close>

type_synonym KeyType = string

definition AES128GCMType :: KeyType where
  "AES128GCMType = ''AES128GCM''"

definition AES256GCMNoPrefixType :: KeyType where
  "AES256GCMNoPrefixType = ''AES256GCMNoPrefix''"

definition AES256GCMType :: KeyType where
  "AES256GCMType = ''AES256GCM''"

definition ChaCha20Poly1305Type :: KeyType where
  "ChaCha20Poly1305Type = ''ChaCha20Poly1305''"

definition XChaCha20Poly1305Type :: KeyType where
  "XChaCha20Poly1305Type = ''XChaCha20Poly1305''"

definition ECDSAP256Type :: KeyType where
  "ECDSAP256Type = ''ECDSAP256''"

definition ECDSAP384Type :: KeyType where
  "ECDSAP384Type = ''ECDSAP384''"

definition ECDSAP521Type :: KeyType where
  "ECDSAP521Type = ''ECDSAP521''"

definition ED25519Type :: KeyType where
  "ED25519Type = ''ED25519''"

definition HMACSHA256Tag256Type :: KeyType where
  "HMACSHA256Tag256Type = ''HMACSHA256Tag256''"

text \<open>
  A key template is the value of one of the ten Tink template constructors that
  \<^verbatim>\<open>getKeyTemplate\<close> calls; the datatype has one constructor for each, under its Go name.
\<close>

datatype KeyTemplate =
    AES128GCMKeyTemplate
  | AES256GCMNoPrefixKeyTemplate
  | AES256GCMKeyTemplate
  | ChaCha20Poly1305KeyTemplate
  | XChaCha20Poly1305KeyTemplate
  | ECDSAP256KeyWithoutPrefixTemplate
  | ECDSAP384KeyWithoutPrefixTemplate
  | ECDSAP521KeyWithoutPrefixTemplate
  | ED25519KeyWithoutPrefixTemplate
  | HMACSHA256Tag256KeyTemplate

datatype Family = SymmetricAEAD | ECDSA | EdDSA | MAC

datatype Framing = Prefixed | Raw

text \<open>
  Modelled from the spec: the algorithm family and the framing of each template
  (section 3, Key Type Tag), which the Tink constructors fix in the library.
  The Go names give both: the Tink package (\<^verbatim>\<open>aead\<close>, \<^verbatim>\<open>signature\<close>, \<^verbatim>\<open>mac\<close>) and the
  \<^verbatim>\<open>NoPrefix\<close> / \<^verbatim>\<open>WithoutPrefix\<close> part of the constructor.
\<close>

fun family :: "KeyTemplate \<Rightarrow> Family" where
  "family AES128GCMKeyTemplate = SymmetricAEAD"
| "family AES256GCMNoPrefixKeyTemplate = SymmetricAEAD"
| "family AES256GCMKeyTemplate = SymmetricAEAD"
| "family ChaCha20Poly1305KeyTemplate = SymmetricAEAD"
| "family XChaCha20Poly1305KeyTemplate = SymmetricAEAD"
| "family ECDSAP256KeyWithoutPrefixTemplate = ECDSA"
| "family ECDSAP384KeyWithoutPrefixTemplate = ECDSA"
| "family ECDSAP521KeyWithoutPrefixTemplate = ECDSA"
| "family ED25519KeyWithoutPrefixTemplate = EdDSA"
| "family HMACSHA256Tag256KeyTemplate = MAC"

fun framing :: "KeyTemplate \<Rightarrow> Framing" where
  "framing AES128GCMKeyTemplate = Prefixed"
| "framing AES256GCMNoPrefixKeyTemplate = Raw"
| "framing AES256GCMKeyTemplate = Prefixed"
| "framing ChaCha20Poly1305KeyTemplate = Prefixed"
| "framing XChaCha20Poly1305KeyTemplate = Prefixed"
| "framing ECDSAP256KeyWithoutPrefixTemplate = Raw"
| "framing ECDSAP384KeyWithoutPrefixTemplate = Raw"
| "framing ECDSAP521KeyWithoutPrefixTemplate = Raw"
| "framing ED25519KeyWithoutPrefixTemplate = Raw"
| "framing HMACSHA256Tag256KeyTemplate = Prefixed"

definition asymmetric :: "KeyTemplate \<Rightarrow> bool" where
  "asymmetric t = (family t = ECDSA \<or> family t = EdDSA)"

text \<open>
  Modelled from the spec: the key handle (\<^verbatim>\<open>keyset.Handle\<close> of Tink) as section 3
  describes it: an ordered collection of key versions, each with an algorithm tag, key
  material, a status and a numeric version identifier.
\<close>

datatype KeyStatus = Primary | Secondary

record KeyVersion =
  algorithm :: KeyTemplate
  material :: bytes
  status :: KeyStatus
  versionID :: "32 word"

type_synonym Handle = "KeyVersion list"

text \<open>The public projection of a handle holds public material only; it has a type of its own.\<close>

record PublicKeyVersion =
  pubAlgorithm :: KeyTemplate
  pubMaterial :: bytes
  pubStatus :: KeyStatus
  pubVersionID :: "32 word"

type_synonym PublicHandle = "PublicKeyVersion list"

subsection \<open>Collaborators\<close>

text \<open>
  Modelled from the spec: the Storage Contract (section 6), a namespaced key-value store
  with \<^verbatim>\<open>put(key, value) -> error\<close>, \<^verbatim>\<open>get(key) -> value | NotFound\<close> and
  \<^verbatim>\<open>delete(key) -> error\<close>. \<open>errPut\<close>, \<open>errGet\<close> and \<open>errDelete\<close> say whether the
  engine currently fails these calls, and with which error; a failed call leaves the data
  as it is. The contract gives \<open>NotFound\<close> for an absent key; that the read of a
  present key may fail as well (\<open>StoreReadFailed\<close> in section 7) is what the test file
  sets up with \<^verbatim>\<open>ErrGet\<close>. \<open>calls\<close> records every call made on the namespace, oldest
  first, whether it failed or not.
\<close>

datatype StoreCall = CallPut string bytes | CallGet string | CallDelete string

record Store =
  data :: "string \<rightharpoonup> bytes"
  errPut :: "error option"
  errGet :: "error option"
  errDelete :: "error option"
  calls :: "StoreCall list"

definition Store_Put :: "Store \<Rightarrow> string \<Rightarrow> bytes \<Rightarrow> error option \<times> Store" where
  "Store_Put s k v =
     (let s' = s\<lparr>calls := calls s @ [CallPut k v]\<rparr>
      in case errPut s of
           Some e \<Rightarrow> (Some e, s')
         | None \<Rightarrow> (None, s'\<lparr>data := (data s)(k \<mapsto> v)\<rparr>))"

definition Store_Get :: "Store \<Rightarrow> string \<Rightarrow> (error + bytes) \<times> Store" where
  "Store_Get s k =
     (let s' = s\<lparr>calls := calls s @ [CallGet k]\<rparr>
      in case data s k of
           None \<Rightarrow> (Inl NotFound, s')
         | Some v \<Rightarrow> (case errGet s of Some e \<Rightarrow> (Inl e, s') | None \<Rightarrow> (Inr v, s')))"

definition Store_Delete :: "Store \<Rightarrow> string \<Rightarrow> error option \<times> Store" where
  "Store_Delete s k =
     (let s' = s\<lparr>calls := calls s @ [CallDelete k]\<rparr>
      in case errDelete s of
           Some e \<Rightarrow> (Some e, s')
         | None \<Rightarrow> (None, s'\<lparr>data := (data s)(k := None)\<rparr>))"

text \<open>
  The envelope AEAD (\<^verbatim>\<open>tink.AEAD\<close>, built in \<^verbatim>\<open>New\<close> over the secret lock and the master
  key URI): \<^verbatim>\<open>Encrypt(plaintext, additionalData)\<close> and \<^verbatim>\<open>Decrypt(ciphertext, additionalData)\<close>,
  each returning bytes or an error. Both are parameters.
\<close>

record AEAD =
  Encrypt :: "bytes \<Rightarrow> bytes \<Rightarrow> error + bytes"
  Decrypt :: "bytes \<Rightarrow> bytes \<Rightarrow> error + bytes"

text \<open>
  The fields of \<^verbatim>\<open>LocalKMS\<close> that an operation reads and never writes. The field
  \<^verbatim>\<open>store\<close> is the \<open>kmsdb\<close> of the world below; \<^verbatim>\<open>secretLock\<close> is used by \<^verbatim>\<open>New\<close> only, to
  build \<open>masterKeyEnvAEAD\<close>.
\<close>

record LocalKMS =
  masterKeyURI :: string
  masterKeyEnvAEAD :: AEAD

text \<open>
  What lies outside the process and changes: the storage namespace \<^verbatim>\<open>"kmsdb"\<close>, and the
  number of draws made so far from the random source (key generation and identifier
  minting both draw from it).
\<close>

record World =
  kmsdb :: Store
  entropy :: nat

text \<open>
  The crypto primitive library and the random source, as parameters. The first argument
  of \<open>NewKeyData\<close>, \<open>NewKeyID\<close> and \<open>NewKeysetID\<close> is the index of the draw.
  \<^item> \<open>NewKeyData\<close>: template-driven key generation (\<^verbatim>\<open>registry.NewKeyData\<close>);
  \<^item> \<open>NewKeyID\<close>: the version identifier given to a new key;
  \<^item> \<open>Marshal\<close>, \<open>Unmarshal\<close>: the serialized form of a keyset and its parser;
  \<^item> \<open>GetPublicKeyData\<close>: the public projection of one private key;
  \<^item> \<open>NewKeysetID\<close>: the identifier the keyset writer mints (the specification leaves
    the scheme open, section 9).
\<close>

record Tink =
  NewKeyData :: "nat \<Rightarrow> KeyTemplate \<Rightarrow> error + bytes"
  NewKeyID :: "nat \<Rightarrow> 32 word"
  Marshal :: "Handle \<Rightarrow> bytes"
  Unmarshal :: "bytes \<Rightarrow> Handle option"
  GetPublicKeyData :: "KeyTemplate \<Rightarrow> bytes \<Rightarrow> error + bytes"
  NewKeysetID :: "nat \<Rightarrow> string"

text \<open>
  Modelled from the spec: \<^verbatim>\<open>keyset.Manager.Rotate\<close> of Tink, step (3) of Rotate in
  section 4.4: generate a key of the requested type and append it as the new primary
  version; the previous primary becomes secondary. It fails when key generation fails.
\<close>

definition demote :: "KeyVersion \<Rightarrow> KeyVersion" where
  "demote v = v\<lparr>status := Secondary\<rparr>"

definition Manager_Rotate ::
  "Tink \<Rightarrow> Handle \<Rightarrow> KeyTemplate \<Rightarrow> World \<Rightarrow> (error + Handle) \<times> World" where
  "Manager_Rotate T kh kt w =
     (let n = entropy w; w' = w\<lparr>entropy := Suc n\<rparr>
      in case NewKeyData T n kt of
           Inl e \<Rightarrow> (Inl e, w')
         | Inr km \<Rightarrow>
             (Inr (map demote kh @
                   [\<lparr>algorithm = kt, material = km, status = Primary, versionID = NewKeyID T n\<rparr>]),
              w'))"

text \<open>
  Modelled from the spec: \<^verbatim>\<open>keyset.NewHandle\<close> of Tink, "generate a fresh key handle
  from the crypto primitive library" (Create, section 4.4): a rotation of the empty
  keyset.
\<close>

definition NewHandle :: "Tink \<Rightarrow> KeyTemplate \<Rightarrow> World \<Rightarrow> (error + Handle) \<times> World" where
  "NewHandle T kt w = Manager_Rotate T [] kt w"

text \<open>
  Modelled from the spec: the Keyset Codec (section 4.3; \<^verbatim>\<open>Handle.Write\<close> and
  \<^verbatim>\<open>keyset.Read\<close> of Tink). Encoding serializes the handle and seals it with the wrapper's
  AEAD under a fixed associated-data context; decoding verifies the seal before
  deserializing, and an authentication failure surfaces as \<open>DecryptionFailed\<close>.
\<close>

definition associatedData :: bytes where
  "associatedData = []"

definition Handle_Write :: "Tink \<Rightarrow> AEAD \<Rightarrow> Handle \<Rightarrow> error + bytes" where
  "Handle_Write T a kh = Encrypt a (Marshal T kh) associatedData"

definition keyset_Read :: "Tink \<Rightarrow> AEAD \<Rightarrow> bytes \<Rightarrow> error + Handle" where
  "keyset_Read T a blob =
     (case Decrypt a blob associatedData of
        Inl e \<Rightarrow> Inl DecryptionFailed
      | Inr p \<Rightarrow> (case Unmarshal T p of None \<Rightarrow> Inl DecodeError | Some kh \<Rightarrow> Inr kh))"

text \<open>
  Modelled from the spec: \<^verbatim>\<open>newWriter(store, masterKeyURI)\<close> and its \<^verbatim>\<open>Write\<close>, the keyset
  writer of this package, defined in another file of it. It writes the blob "to storage
  under a newly minted identifier" and exposes the identifier as \<^verbatim>\<open>KeysetID\<close>; "if the
  write fails, ... no identifier is considered allocated" (section 4.4).
\<close>

definition storeWriter_Write :: "Tink \<Rightarrow> bytes \<Rightarrow> World \<Rightarrow> (error + string) \<times> World" where
  "storeWriter_Write T p w =
     (let ksID = NewKeysetID T (entropy w)
      in case Store_Put (kmsdb w) ksID p of
           (Some e, s') \<Rightarrow> (Inl e, w\<lparr>kmsdb := s', entropy := Suc (entropy w)\<rparr>)
         | (None, s') \<Rightarrow> (Inr ksID, w\<lparr>kmsdb := s', entropy := Suc (entropy w)\<rparr>))"

text \<open>
  Modelled from the spec: \<^verbatim>\<open>newReader(store, id)\<close> and its \<^verbatim>\<open>Read\<close>, the keyset reader of
  this package, defined in another file of it: it "reads the blob for id; NotFound if
  absent" (Get, section 4.4).
\<close>

definition storeReader_Read :: "string \<Rightarrow> World \<Rightarrow> (error + bytes) \<times> World" where
  "storeReader_Read keysetID w =
     (case Store_Get (kmsdb w) keysetID of (r, s') \<Rightarrow> (r, w\<lparr>kmsdb := s'\<rparr>))"

text \<open>
  Modelled from the spec: \<^verbatim>\<open>Handle.Public\<close> of Tink. The source says of it "kh must be a
  private asymmetric key in order to extract its public key", and the specification
  names the failure \<open>NotAsymmetricKey\<close>: every version must be of an asymmetric
  algorithm, and each is replaced by its public projection.
\<close>

fun Handle_Public :: "Tink \<Rightarrow> Handle \<Rightarrow> error + PublicHandle" where
  "Handle_Public T [] = Inr []"
| "Handle_Public T (v # vs) =
     (if \<not> asymmetric (algorithm v) then Inl NotAsymmetricKey
      else case GetPublicKeyData T (algorithm v) (material v) of
             Inl e \<Rightarrow> Inl e
           | Inr pk \<Rightarrow>
               (case Handle_Public T vs of
                  Inl e \<Rightarrow> Inl e
                | Inr pvs \<Rightarrow>
                    Inr (\<lparr>pubAlgorithm = algorithm v, pubMaterial = pk,
                          pubStatus = status v, pubVersionID = versionID v\<rparr> # pvs)))"

text \<open>
  Modelled from the spec: \<^verbatim>\<open>NewWriter(buf)\<close> with \<^verbatim>\<open>WriteWithNoSecrets\<close>, the public-key
  writer of this package, defined in another file of it. It "serializes [the public
  projection] without any private material, and returns raw bytes" (section 4.4): the raw
  public key of the primary version. A handle without a primary version has no key to
  write.
\<close>

fun WriteWithNoSecrets :: "PublicHandle \<Rightarrow> error + bytes" where
  "WriteWithNoSecrets [] = Inl (CollaboratorError ''key not written'')"
| "WriteWithNoSecrets (p # ps) =
     (if pubStatus p = Primary then Inr (pubMaterial p) else WriteWithNoSecrets ps)"

subsection \<open>The operations of localkms.go\<close>

text \<open>\<^verbatim>\<open>getKeyTemplate\<close>: the \<^verbatim>\<open>switch\<close> over the key type, case by case in source order.\<close>

definition getKeyTemplate :: "KeyType \<Rightarrow> error + KeyTemplate" where
  "getKeyTemplate keyType =
     (if keyType = AES128GCMType then Inr AES128GCMKeyTemplate
      else if keyType = AES256GCMNoPrefixType then Inr AES256GCMNoPrefixKeyTemplate
      else if keyType = AES256GCMType then Inr AES256GCMKeyTemplate
      else if keyType = ChaCha20Poly1305Type then Inr ChaCha20Poly1305KeyTemplate
      else if keyType = XChaCha20Poly1305Type then Inr XChaCha20Poly1305KeyTemplate
      else if keyType = ECDSAP256Type then Inr ECDSAP256KeyWithoutPrefixTemplate
      else if keyType = ECDSAP384Type then Inr ECDSAP384KeyWithoutPrefixTemplate
      else if keyType = ECDSAP521Type then Inr ECDSAP521KeyWithoutPrefixTemplate
      else if keyType = ED25519Type then Inr ED25519KeyWithoutPrefixTemplate
      else if keyType = HMACSHA256Tag256Type then Inr HMACSHA256Tag256KeyTemplate
      else Inl UnsupportedKeyType)"

text \<open>
  \<^verbatim>\<open>storeKeySet\<close>: write the handle through the JSON keyset writer, sealed by the master
  key envelope AEAD, into a buffer; then write the buffer to the local storage.
\<close>

definition storeKeySet :: "Tink \<Rightarrow> LocalKMS \<Rightarrow> Handle \<Rightarrow> World \<Rightarrow> (error + string) \<times> World" where
  "storeKeySet T l kh w =
     (case Handle_Write T (masterKeyEnvAEAD l) kh of
        Inl err \<Rightarrow> (Inl err, w)
      | Inr buf \<Rightarrow> storeWriter_Write T buf w)"

text \<open>
  \<^verbatim>\<open>getKeySet\<close>: read the encrypted keyset back through the reader of the local storage
  and decrypt it with the master key envelope AEAD.
\<close>

definition getKeySet :: "Tink \<Rightarrow> LocalKMS \<Rightarrow> string \<Rightarrow> World \<Rightarrow> (error + Handle) \<times> World" where
  "getKeySet T l id' w =
     (case storeReader_Read id' w of
        (Inl err, w') \<Rightarrow> (Inl err, w')
      | (Inr blob, w') \<Rightarrow> (keyset_Read T (masterKeyEnvAEAD l) blob, w'))"

definition Create ::
  "Tink \<Rightarrow> LocalKMS \<Rightarrow> KeyType \<Rightarrow> World \<Rightarrow> (error + string \<times> Handle) \<times> World" where
  "Create T l kt w =
     (if kt = [] then (Inl MissingKeyType, w)
      else case getKeyTemplate kt of
             Inl err \<Rightarrow> (Inl err, w)
           | Inr keyTemplate \<Rightarrow>
               (case NewHandle T keyTemplate w of
                  (Inl err, w1) \<Rightarrow> (Inl err, w1)
                | (Inr kh, w1) \<Rightarrow>
                    (case storeKeySet T l kh w1 of
                       (Inl err, w2) \<Rightarrow> (Inl err, w2)
                     | (Inr kID, w2) \<Rightarrow> (Inr (kID, kh), w2))))"

definition Get :: "Tink \<Rightarrow> LocalKMS \<Rightarrow> string \<Rightarrow> World \<Rightarrow> (error + Handle) \<times> World" where
  "Get T l keyID w = getKeySet T l keyID w"

text \<open>
  \<^verbatim>\<open>Rotate\<close>, step by step as in the source: load the handle, resolve the template,
  rotate, delete the old blob, store the updated handle. (\<^verbatim>\<open>km.Handle()\<close> returns the
  keyset of the manager, which the rotation has just built.)
\<close>

definition Rotate ::
  "Tink \<Rightarrow> LocalKMS \<Rightarrow> KeyType \<Rightarrow> string \<Rightarrow> World \<Rightarrow> (error + string \<times> Handle) \<times> World" where
  "Rotate T l kt keyID w =
     (case getKeySet T l keyID w of
        (Inl err, w1) \<Rightarrow> (Inl err, w1)
      | (Inr kh, w1) \<Rightarrow>
          (case getKeyTemplate kt of
             Inl err \<Rightarrow> (Inl err, w1)
           | Inr keyTemplate \<Rightarrow>
               (case Manager_Rotate T kh keyTemplate w1 of
                  (Inl err, w2) \<Rightarrow> (Inl err, w2)
                | (Inr updatedKH, w2) \<Rightarrow>
                    (case Store_Delete (kmsdb w2) keyID of
                       (Some err, s3) \<Rightarrow> (Inl err, w2\<lparr>kmsdb := s3\<rparr>)
                     | (None, s3) \<Rightarrow>
                         (case storeKeySet T l updatedKH (w2\<lparr>kmsdb := s3\<rparr>) of
                            (Inl err, w4) \<Rightarrow> (Inl err, w4)
                          | (Inr newID, w4) \<Rightarrow> (Inr (newID, updatedKH), w4))))))"

definition ExportPubKeyBytes ::
  "Tink \<Rightarrow> LocalKMS \<Rightarrow> string \<Rightarrow> World \<Rightarrow> (error + bytes) \<times> World" where
  "ExportPubKeyBytes T l id' w =
     (case getKeySet T l id' w of
        (Inl err, w1) \<Rightarrow> (Inl err, w1)
      | (Inr kh, w1) \<Rightarrow>
          (case Handle_Public T kh of
             Inl err \<Rightarrow> (Inl err, w1)
           | Inr pubKH \<Rightarrow>
               (case WriteWithNoSecrets pubKH of
                  Inl err \<Rightarrow> (Inl err, w1)
                | Inr buf \<Rightarrow> (Inr buf, w1))))"

text \<open>The table of the \<^verbatim>\<open>switch\<close> in \<^verbatim>\<open>getKeyTemplate\<close>: case label and template, in source order.\<close>

definition catalog :: "(KeyType \<times> KeyTemplate) list" where
  "catalog =
     [(AES128GCMType, AES128GCMKeyTemplate),
      (AES256GCMNoPrefixType, AES256GCMNoPrefixKeyTemplate),
      (AES256GCMType, AES256GCMKeyTemplate),
      (ChaCha20Poly1305Type, ChaCha20Poly1305KeyTemplate),
      (XChaCha20Poly1305Type, XChaCha20Poly1305KeyTemplate),
      (ECDSAP256Type, ECDSAP256KeyWithoutPrefixTemplate),
      (ECDSAP384Type, ECDSAP384KeyWithoutPrefixTemplate),
      (ECDSAP521Type, ECDSAP521KeyWithoutPrefixTemplate),
      (ED25519Type, ED25519KeyWithoutPrefixTemplate),
      (HMACSHA256Tag256Type, HMACSHA256Tag256KeyTemplate)]"

subsection \<open>Contracts of the parameters\<close>

text \<open>
  The codec is sound at a handle when the parser reads the serialized handle back and the
  AEAD, if it seals the serialized handle at all, opens the sealed bytes to it again
  (correctness of the AEAD and of the marshalling, at this handle).
\<close>

definition codecSound :: "Tink \<Rightarrow> AEAD \<Rightarrow> Handle \<Rightarrow> bool" where
  "codecSound T a kh \<longleftrightarrow>
     Unmarshal T (Marshal T kh) = Some kh \<and>
     (case Encrypt a (Marshal T kh) associatedData of
        Inl e \<Rightarrow> True
      | Inr c \<Rightarrow> Decrypt a c associatedData = Inr (Marshal T kh))"

text \<open>
  Identifiers are never reused (section 3): the scheme yields a different identifier at
  every draw, and every identifier in the namespace was minted at an earlier draw.
\<close>

definition neverReused :: "Tink \<Rightarrow> bool" where
  "neverReused T \<longleftrightarrow> inj (NewKeysetID T)"

definition mintedEarlier :: "Tink \<Rightarrow> World \<Rightarrow> bool" where
  "mintedEarlier T w \<longleftrightarrow>
     (\<forall>k. k \<in> dom (data (kmsdb w)) \<longrightarrow> (\<exists>n<entropy w. k = NewKeysetID T n))"

text \<open>
  The library projects a key version when it derives public key bytes from it, and not
  the empty byte string.
\<close>

definition publicProjectable :: "Tink \<Rightarrow> KeyVersion \<Rightarrow> bool" where
  "publicProjectable T v \<longleftrightarrow>
     (case GetPublicKeyData T (algorithm v) (material v) of
        Inl e \<Rightarrow> False
      | Inr pk \<Rightarrow> pk \<noteq> [])"

subsection \<open>A test instance\<close>

text \<open>
  An instance of the parameters in the manner of the test file (an in-memory store, a
  fixed master key): the AEAD frames the plaintext between a one-byte master key and a
  one-byte tag over key, plaintext and associated data; the marshaller writes each version as algorithm code, status, version identifier,
  length and material.
\<close>

fun algCode :: "KeyTemplate \<Rightarrow> 8 word" where
  "algCode AES128GCMKeyTemplate = 0"
| "algCode AES256GCMNoPrefixKeyTemplate = 1"
| "algCode AES256GCMKeyTemplate = 2"
| "algCode ChaCha20Poly1305KeyTemplate = 3"
| "algCode XChaCha20Poly1305KeyTemplate = 4"
| "algCode ECDSAP256KeyWithoutPrefixTemplate = 5"
| "algCode ECDSAP384KeyWithoutPrefixTemplate = 6"
| "algCode ECDSAP521KeyWithoutPrefixTemplate = 7"
| "algCode ED25519KeyWithoutPrefixTemplate = 8"
| "algCode HMACSHA256Tag256KeyTemplate = 9"

definition algOfCode :: "8 word \<Rightarrow> KeyTemplate option" where
  "algOfCode b =
     (if b = 0 then Some AES128GCMKeyTemplate
      else if b = 1 then Some AES256GCMNoPrefixKeyTemplate
      else if b = 2 then Some AES256GCMKeyTemplate
      else if b = 3 then Some ChaCha20Poly1305KeyTemplate
      else if b = 4 then Some XChaCha20Poly1305KeyTemplate
      else if b = 5 then Some ECDSAP256KeyWithoutPrefixTemplate
      else if b = 6 then Some ECDSAP384KeyWithoutPrefixTemplate
      else if b = 7 then Some ECDSAP521KeyWithoutPrefixTemplate
      else if b = 8 then Some ED25519KeyWithoutPrefixTemplate
      else if b = 9 then Some HMACSHA256Tag256KeyTemplate
      else None)"

fun testMarshal :: "Handle \<Rightarrow> bytes" where
  "testMarshal [] = []"
| "testMarshal (v # vs) =
     algCode (algorithm v) # (if status v = Primary then 1 else 0) # ucast (versionID v)
       # of_nat (length (material v)) # material v @ testMarshal vs"

fun testUnmarshal :: "bytes \<Rightarrow> Handle option" where
  "testUnmarshal [] = Some []"
| "testUnmarshal (a # s # i # n # rest) =
     (case algOfCode a of
        None \<Rightarrow> None
      | Some t \<Rightarrow>
          if length rest < unat n then None
          else (case testUnmarshal (drop (unat n) rest) of
                  None \<Rightarrow> None
                | Some vs \<Rightarrow>
                    Some (\<lparr>algorithm = t, material = take (unat n) rest,
                           status = (if s = 1 then Primary else Secondary),
                           versionID = ucast i\<rparr> # vs)))"
| "testUnmarshal _ = None"

definition testAEAD :: "8 word \<Rightarrow> AEAD" where
  "testAEAD k =
     \<lparr>Encrypt = (\<lambda>p ad. Inr (k # p @ [k + sum_list p + sum_list ad])),
      Decrypt = (\<lambda>c ad.
        case c of
          [] \<Rightarrow> Inl DecryptionFailed
        | b # r \<Rightarrow>
            if b = k \<and> r \<noteq> [] \<and> last r = k + sum_list (butlast r) + sum_list ad
            then Inr (butlast r) else Inl DecryptionFailed)\<rparr>"

definition testTink :: Tink where
  "testTink =
     \<lparr>NewKeyData = (\<lambda>n t. Inr [of_nat n, 7]),
      NewKeyID = (\<lambda>n. of_nat n + 1),
      Marshal = testMarshal,
      Unmarshal = testUnmarshal,
      GetPublicKeyData = (\<lambda>t km. Inr (4 # take 1 km)),
      NewKeysetID = (\<lambda>n. ''key-'' @ replicate n CHR ''i'')\<rparr>"

text \<open>Two services over the same namespace, with different master keys.\<close>

definition testKMS :: LocalKMS where
  "testKMS = \<lparr>masterKeyURI = ''local-lock://test/key/uri'', masterKeyEnvAEAD = testAEAD 42\<rparr>"

definition otherKMS :: LocalKMS where
  "otherKMS = \<lparr>masterKeyURI = ''local-lock://other/key/uri'', masterKeyEnvAEAD = testAEAD 43\<rparr>"

definition emptyStore :: Store where
  "emptyStore = \<lparr>data = Map.empty, errPut = None, errGet = None, errDelete = None,
                  calls = []\<rparr>"

definition emptyWorld :: World where
  "emptyWorld = \<lparr>kmsdb = emptyStore, entropy = 0\<rparr>"

text \<open>The world after the load of \<^verbatim>\<open>Rotate\<close>, after its rotation, and after its delete.\<close>

definition loaded :: "string \<Rightarrow> World \<Rightarrow> World" where
  "loaded k w = w\<lparr>kmsdb := (kmsdb w)\<lparr>calls := calls (kmsdb w) @ [CallGet k]\<rparr>\<rparr>"

definition rotated :: "string \<Rightarrow> World \<Rightarrow> World" where
  "rotated k w = (loaded k w)\<lparr>entropy := Suc (entropy w)\<rparr>"

definition deleted :: "string \<Rightarrow> World \<Rightarrow> World" where
  "deleted k w =
     (rotated k w)\<lparr>kmsdb := (kmsdb w)\<lparr>calls := calls (kmsdb w) @ [CallGet k, CallDelete k],
                                        data := (data (kmsdb w))(k := None)\<rparr>\<rparr>"

definition rotatedHandle :: "Tink \<Rightarrow> Handle \<Rightarrow> KeyTemplate \<Rightarrow> World \<Rightarrow> bytes \<Rightarrow> Handle" where
  "rotatedHandle T kh t w km =
     map demote kh @
     [\<lparr>algorithm = t, material = km, status = Primary, versionID = NewKeyID T (entropy w)\<rparr>]"

text \<open>
  Worlds of the test instance: the namespace after \<^verbatim>\<open>Create("AES128GCM")\<close> and after
  \<^verbatim>\<open>Create("ECDSAP256")\<close> on the empty store, and the same with a storage engine that
  fails every put, every get or every delete.
\<close>

definition putFailingWorld :: World where
  "putFailingWorld =
     emptyWorld\<lparr>kmsdb := emptyStore\<lparr>errPut := Some (CollaboratorError ''failed to put data'')\<rparr>\<rparr>"

definition createdWorld :: World where
  "createdWorld = snd (Create testTink testKMS AES128GCMType emptyWorld)"

definition createdECDSAWorld :: World where
  "createdECDSAWorld = snd (Create testTink testKMS ECDSAP256Type emptyWorld)"

definition deleteFailing :: "World \<Rightarrow> World" where
  "deleteFailing w =
     w\<lparr>kmsdb := (kmsdb w)\<lparr>errDelete := Some (CollaboratorError ''failed to delete data'')\<rparr>\<rparr>"

definition getFailing :: "World \<Rightarrow> World" where
  "getFailing w =
     w\<lparr>kmsdb := (kmsdb w)\<lparr>errGet := Some (CollaboratorError ''failed to get data'')\<rparr>\<rparr>"

definition putFailing :: "World \<Rightarrow> World" where
  "putFailing w =
     w\<lparr>kmsdb := (kmsdb w)\<lparr>errPut := Some (CollaboratorError ''failed to put data'')\<rparr>\<rparr>"

text \<open>Corruption of a stored blob: byte \<open>i\<close> of the blob under \<open>k\<close> has all its bits flipped.\<close>

definition flipByte :: "nat \<Rightarrow> bytes \<Rightarrow> bytes" where
  "flipByte i b = (if i < length b then b[i := (b ! i) XOR 255] else b)"

definition tampered :: "string \<Rightarrow> nat \<Rightarrow> World \<Rightarrow> World" where
  "tampered k i w =
     (case data (kmsdb w) k of
        None \<Rightarrow> w
      | Some b \<Rightarrow> w\<lparr>kmsdb := (kmsdb w)\<lparr>data := (data (kmsdb w))(k \<mapsto> flipByte i b)\<rparr>\<rparr>)"

section \<open>Properties\<close>

subsection \<open>The template catalog\<close>

lemmas KeyType_defs =
  AES128GCMType_def AES256GCMNoPrefixType_def AES256GCMType_def ChaCha20Poly1305Type_def
  XChaCha20Poly1305Type_def ECDSAP256Type_def ECDSAP384Type_def ECDSAP521Type_def
  ED25519Type_def HMACSHA256Tag256Type_def

lemma getKeyTemplate_known:
  "getKeyTemplate AES128GCMType = Inr AES128GCMKeyTemplate"
  "getKeyTemplate AES256GCMNoPrefixType = Inr AES256GCMNoPrefixKeyTemplate"
  "getKeyTemplate AES256GCMType = Inr AES256GCMKeyTemplate"
  "getKeyTemplate ChaCha20Poly1305Type = Inr ChaCha20Poly1305KeyTemplate"
  "getKeyTemplate XChaCha20Poly1305Type = Inr XChaCha20Poly1305KeyTemplate"
  "getKeyTemplate ECDSAP256Type = Inr ECDSAP256KeyWithoutPrefixTemplate"
  "getKeyTemplate ECDSAP384Type = Inr ECDSAP384KeyWithoutPrefixTemplate"
  "getKeyTemplate ECDSAP521Type = Inr ECDSAP521KeyWithoutPrefixTemplate"
  "getKeyTemplate ED25519Type = Inr ED25519KeyWithoutPrefixTemplate"
  "getKeyTemplate HMACSHA256Tag256Type = Inr HMACSHA256Tag256KeyTemplate"
  by (simp_all add: getKeyTemplate_def KeyType_defs)

lemma catalog_sound:
  "(kt, t) \<in> set catalog \<Longrightarrow> getKeyTemplate kt = Inr t"
  unfolding catalog_def
  by (auto simp: getKeyTemplate_known)

lemma catalog_complete:
  "getKeyTemplate kt = Inr t \<Longrightarrow> (kt, t) \<in> set catalog"
  unfolding getKeyTemplate_def catalog_def
  by (simp split: if_splits)

lemma getKeyTemplate_unknown:
  "kt \<notin> fst ` set catalog \<Longrightarrow> getKeyTemplate kt = Inl UnsupportedKeyType"
  unfolding getKeyTemplate_def catalog_def
  by simp

lemma getKeyTemplate_Inl:
  "getKeyTemplate kt = Inl e \<Longrightarrow> e = UnsupportedKeyType"
  unfolding getKeyTemplate_def
  by (simp split: if_splits)

lemma getKeyTemplate_empty: "getKeyTemplate [] = Inl UnsupportedKeyType"
  by (simp add: getKeyTemplate_def KeyType_defs)

lemma catalog_distinct: "distinct (map fst catalog)"
  by (simp add: catalog_def KeyType_defs)

text \<open>
  C3 (as amended). The catalog of \<^verbatim>\<open>getKeyTemplate\<close> has ten tags, not nine: five
  symmetric AEAD tags (three AES-GCM ones: AES128GCM and AES256GCM prefixed,
  AES256GCMNoPrefix raw; ChaCha20-Poly1305 and XChaCha20-Poly1305 prefixed), three ECDSA
  tags and one EdDSA tag (raw), and one HMAC tag (prefixed). The lookup succeeds for
  exactly these ten tags, maps each to exactly one template, and rejects every other tag,
  the empty tag among them, with \<open>UnsupportedKeyType\<close>.
\<close>

theorem getKeyTemplate_ten_tags:
  "(getKeyTemplate kt = Inr t \<longleftrightarrow> (kt, t) \<in> set catalog) \<and>
   (kt \<notin> fst ` set catalog \<longrightarrow> getKeyTemplate kt = Inl UnsupportedKeyType) \<and>
   getKeyTemplate [] = Inl UnsupportedKeyType \<and>
   distinct (map fst catalog) \<and> length catalog = 10 \<and>
   map (family \<circ> snd) catalog =
     [SymmetricAEAD, SymmetricAEAD, SymmetricAEAD, SymmetricAEAD, SymmetricAEAD,
      ECDSA, ECDSA, ECDSA, EdDSA, MAC] \<and>
   map (framing \<circ> snd) catalog =
     [Prefixed, Raw, Prefixed, Prefixed, Prefixed, Raw, Raw, Raw, Raw, Prefixed]"
proof (intro conjI)
  show "getKeyTemplate kt = Inr t \<longleftrightarrow> (kt, t) \<in> set catalog"
    using catalog_sound catalog_complete by (rule iffI [rotated])
  show "kt \<notin> fst ` set catalog \<longrightarrow> getKeyTemplate kt = Inl UnsupportedKeyType"
    using getKeyTemplate_unknown by (rule impI)
  show "getKeyTemplate [] = Inl UnsupportedKeyType"
    by (rule getKeyTemplate_empty)
  show "distinct (map fst catalog)"
    by (rule catalog_distinct)
  show "length catalog = 10"
    by (simp add: catalog_def)
  show "map (family \<circ> snd) catalog =
     [SymmetricAEAD, SymmetricAEAD, SymmetricAEAD, SymmetricAEAD, SymmetricAEAD,
      ECDSA, ECDSA, ECDSA, EdDSA, MAC]"
    by (simp add: catalog_def)
  show "map (framing \<circ> snd) catalog =
     [Prefixed, Raw, Prefixed, Prefixed, Prefixed, Raw, Raw, Raw, Raw, Prefixed]"
    by (simp add: catalog_def)
qed

theorem getKeyTemplate_ten_tags_witness:
  "''unsupported'' \<notin> fst ` set catalog \<and>
   getKeyTemplate ''unsupported'' = Inl UnsupportedKeyType \<and>
   (AES256GCMType, AES256GCMKeyTemplate) \<in> set catalog \<and>
   getKeyTemplate AES256GCMType = Inr AES256GCMKeyTemplate"
proof -
  have a: "''unsupported'' \<notin> fst ` set catalog"
    by (simp add: catalog_def KeyType_defs)
  have b: "(AES256GCMType, AES256GCMKeyTemplate) \<in> set catalog"
    by (simp add: catalog_def)
  have c: "getKeyTemplate ''unsupported'' = Inl UnsupportedKeyType"
    using getKeyTemplate_ten_tags [of "''unsupported''" AES128GCMKeyTemplate] a
    by (elim conjE) (erule mp)
  have d: "getKeyTemplate AES256GCMType = Inr AES256GCMKeyTemplate"
    using getKeyTemplate_ten_tags [of AES256GCMType AES256GCMKeyTemplate] b
    by (elim conjE) (erule iffD2)
  show ?thesis
    by (intro conjI a b c d)
qed

text \<open>
  C3 as stated fails: ten pairwise different tags are accepted, and five of them, three
  AES-GCM ones among these, select a symmetric AEAD template.
\<close>

theorem getKeyTemplate_nine_tags_counterexample:
  "distinct [AES128GCMType, AES256GCMNoPrefixType, AES256GCMType, ChaCha20Poly1305Type,
             XChaCha20Poly1305Type, ECDSAP256Type, ECDSAP384Type, ECDSAP521Type, ED25519Type,
             HMACSHA256Tag256Type] \<and>
   map getKeyTemplate
     [AES128GCMType, AES256GCMNoPrefixType, AES256GCMType, ChaCha20Poly1305Type,
      XChaCha20Poly1305Type, ECDSAP256Type, ECDSAP384Type, ECDSAP521Type, ED25519Type,
      HMACSHA256Tag256Type] =
     [Inr AES128GCMKeyTemplate, Inr AES256GCMNoPrefixKeyTemplate, Inr AES256GCMKeyTemplate,
      Inr ChaCha20Poly1305KeyTemplate, Inr XChaCha20Poly1305KeyTemplate,
      Inr ECDSAP256KeyWithoutPrefixTemplate, Inr ECDSAP384KeyWithoutPrefixTemplate,
      Inr ECDSAP521KeyWithoutPrefixTemplate, Inr ED25519KeyWithoutPrefixTemplate,
      Inr HMACSHA256Tag256KeyTemplate] \<and>
   map family
     [AES128GCMKeyTemplate, AES256GCMNoPrefixKeyTemplate, AES256GCMKeyTemplate,
      ChaCha20Poly1305KeyTemplate, XChaCha20Poly1305KeyTemplate] =
     [SymmetricAEAD, SymmetricAEAD, SymmetricAEAD, SymmetricAEAD, SymmetricAEAD]"
  by (simp add: getKeyTemplate_def KeyType_defs)

subsection \<open>The steps of the operations\<close>

lemma getKeySet_snd:
  "snd (getKeySet T l k w) = w\<lparr>kmsdb := (kmsdb w)\<lparr>calls := calls (kmsdb w) @ [CallGet k]\<rparr>\<rparr>"
  by (simp add: getKeySet_def storeReader_Read_def Store_Get_def Let_def
      split: option.splits sum.splits)

lemma getKeySet_fst:
  "fst (getKeySet T l k w) =
     (case data (kmsdb w) k of
        None \<Rightarrow> Inl NotFound
      | Some b \<Rightarrow>
          (case errGet (kmsdb w) of
             Some e \<Rightarrow> Inl e
           | None \<Rightarrow> keyset_Read T (masterKeyEnvAEAD l) b))"
  by (simp add: getKeySet_def storeReader_Read_def Store_Get_def Let_def
      split: option.splits sum.splits)

lemma Manager_Rotate_snd:
  "snd (Manager_Rotate T kh kt w) = w\<lparr>entropy := Suc (entropy w)\<rparr>"
  by (simp add: Manager_Rotate_def Let_def split: sum.splits)

lemma Manager_Rotate_fst:
  "fst (Manager_Rotate T kh kt w) =
     (case NewKeyData T (entropy w) kt of
        Inl e \<Rightarrow> Inl e
      | Inr km \<Rightarrow>
          Inr (map demote kh @
               [\<lparr>algorithm = kt, material = km, status = Primary,
                 versionID = NewKeyID T (entropy w)\<rparr>]))"
  by (simp add: Manager_Rotate_def Let_def split: sum.splits)

lemma Manager_Rotate_length:
  "fst (Manager_Rotate T kh kt w) = Inr kh' \<Longrightarrow> length kh' = Suc (length kh)"
  by (auto simp: Manager_Rotate_fst split: sum.splits)

lemma storeKeySet_Inr:
  assumes "storeKeySet T l kh w = (Inr kid, w')"
  shows "\<exists>buf. Handle_Write T (masterKeyEnvAEAD l) kh = Inr buf \<and>
           kid = NewKeysetID T (entropy w) \<and> errPut (kmsdb w) = None \<and>
           w' = w\<lparr>kmsdb := (kmsdb w)\<lparr>calls := calls (kmsdb w) @ [CallPut kid buf],
                                     data := (data (kmsdb w))(kid \<mapsto> buf)\<rparr>,
                  entropy := Suc (entropy w)\<rparr>"
  using assms
  by (auto simp: storeKeySet_def storeWriter_Write_def Store_Put_def Let_def
           split: sum.splits option.splits)

lemma storeKeySet_Inl:
  assumes "storeKeySet T l kh w = (Inl e, w')"
  shows "data (kmsdb w') = data (kmsdb w) \<and> errPut (kmsdb w') = errPut (kmsdb w) \<and>
         errGet (kmsdb w') = errGet (kmsdb w) \<and>
         errDelete (kmsdb w') = errDelete (kmsdb w) \<and> entropy w \<le> entropy w' \<and>
         (calls (kmsdb w') = calls (kmsdb w) \<or>
          (\<exists>k b. calls (kmsdb w') = calls (kmsdb w) @ [CallPut k b]))"
  using assms
  by (auto simp: storeKeySet_def storeWriter_Write_def Store_Put_def Let_def
           split: sum.splits option.splits)

lemma storeKeySet_errPut:
  "errPut (kmsdb w) = Some e \<Longrightarrow> \<exists>e'. fst (storeKeySet T l kh w) = Inl e'"
  by (auto simp: storeKeySet_def storeWriter_Write_def Store_Put_def Let_def
           split: sum.splits option.splits)

lemma Store_Delete_Some:
  "errDelete s = Some e \<Longrightarrow>
     Store_Delete s k = (Some e, s\<lparr>calls := calls s @ [CallDelete k]\<rparr>)"
  by (simp add: Store_Delete_def Let_def)

lemma Store_Delete_None:
  "errDelete s = None \<Longrightarrow>
     Store_Delete s k =
       (None, s\<lparr>calls := calls s @ [CallDelete k], data := (data s)(k := None)\<rparr>)"
  by (simp add: Store_Delete_def Let_def)

lemma getKeySet_eq:
  "getKeySet T l k w = (fst (getKeySet T l k w), loaded k w)"
  using getKeySet_snd [of T l k w] by (simp add: loaded_def prod_eq_iff)

lemma Rotate_load_fails:
  "fst (getKeySet T l k w) = Inl e \<Longrightarrow> Rotate T l kt k w = (Inl e, loaded k w)"
  by (subst Rotate_def, subst getKeySet_eq) simp

lemma Rotate_tag_fails:
  "fst (getKeySet T l k w) = Inr kh \<Longrightarrow> getKeyTemplate kt = Inl e \<Longrightarrow>
     Rotate T l kt k w = (Inl e, loaded k w)"
  by (subst Rotate_def, subst getKeySet_eq) simp

lemma Rotate_keygen_fails:
  "fst (getKeySet T l k w) = Inr kh \<Longrightarrow> getKeyTemplate kt = Inr t \<Longrightarrow>
   NewKeyData T (entropy w) t = Inl e \<Longrightarrow>
     Rotate T l kt k w = (Inl e, rotated k w)"
  by (subst Rotate_def, subst getKeySet_eq)
     (simp add: Manager_Rotate_def Let_def loaded_def rotated_def)

lemma Rotate_delete_fails:
  "fst (getKeySet T l k w) = Inr kh \<Longrightarrow> getKeyTemplate kt = Inr t \<Longrightarrow>
   NewKeyData T (entropy w) t = Inr km \<Longrightarrow> errDelete (kmsdb w) = Some e \<Longrightarrow>
     Rotate T l kt k w =
       (Inl e, (rotated k w)\<lparr>kmsdb := (kmsdb w)\<lparr>calls := calls (kmsdb w) @
                                                  [CallGet k, CallDelete k]\<rparr>\<rparr>)"
  by (subst Rotate_def, subst getKeySet_eq)
     (simp add: Manager_Rotate_def Let_def loaded_def rotated_def Store_Delete_def)

lemma Rotate_store:
  "fst (getKeySet T l k w) = Inr kh \<Longrightarrow> getKeyTemplate kt = Inr t \<Longrightarrow>
   NewKeyData T (entropy w) t = Inr km \<Longrightarrow> errDelete (kmsdb w) = None \<Longrightarrow>
     Rotate T l kt k w =
       (case storeKeySet T l (rotatedHandle T kh t w km) (deleted k w) of
          (Inl err, w4) \<Rightarrow> (Inl err, w4)
        | (Inr newID, w4) \<Rightarrow> (Inr (newID, rotatedHandle T kh t w km), w4))"
  by (subst Rotate_def, subst getKeySet_eq)
     (simp add: Manager_Rotate_def Let_def loaded_def rotated_def deleted_def
        rotatedHandle_def Store_Delete_def split: prod.splits sum.splits)

subsection \<open>The test instance, evaluated\<close>

lemmas test_defs =
  testTink_def testKMS_def otherKMS_def testAEAD_def emptyWorld_def emptyStore_def algOfCode_def
  associatedData_def demote_def putFailingWorld_def deleteFailing_def putFailing_def getFailing_def

lemmas op_defs =
  Create_def Get_def Rotate_def ExportPubKeyBytes_def getKeySet_def storeKeySet_def
  NewHandle_def Manager_Rotate_def Handle_Write_def keyset_Read_def storeWriter_Write_def
  storeReader_Read_def Store_Put_def Store_Get_def Store_Delete_def Let_def

lemma createdWorld_eq:
  "createdWorld =
     \<lparr>kmsdb = \<lparr>data = [''key-i'' \<mapsto> [42, 0, 1, 1, 2, 0, 7, 53]], errPut = None, errGet = None,
               errDelete = None,
               calls = [CallPut ''key-i'' [42, 0, 1, 1, 2, 0, 7, 53]]\<rparr>,
      entropy = 2\<rparr>"
  by (simp add: createdWorld_def op_defs test_defs getKeyTemplate_def KeyType_defs)

lemma createdECDSAWorld_eq:
  "createdECDSAWorld =
     \<lparr>kmsdb = \<lparr>data = [''key-i'' \<mapsto> [42, 5, 1, 1, 2, 0, 7, 58]], errPut = None, errGet = None,
               errDelete = None,
               calls = [CallPut ''key-i'' [42, 5, 1, 1, 2, 0, 7, 58]]\<rparr>,
      entropy = 2\<rparr>"
  by (simp add: createdECDSAWorld_def op_defs test_defs getKeyTemplate_def KeyType_defs)

lemma Create_AES128GCM:
  "Create testTink testKMS ''AES128GCM'' emptyWorld =
     (Inr (''key-i'', [\<lparr>algorithm = AES128GCMKeyTemplate, material = [0, 7],
                         status = Primary, versionID = 1\<rparr>]), createdWorld)"
  by (simp add: createdWorld_eq)
     (simp add: op_defs test_defs getKeyTemplate_def KeyType_defs)

lemma Create_ECDSAP256:
  "Create testTink testKMS ECDSAP256Type emptyWorld =
     (Inr (''key-i'', [\<lparr>algorithm = ECDSAP256KeyWithoutPrefixTemplate, material = [0, 7],
                         status = Primary, versionID = 1\<rparr>]), createdECDSAWorld)"
  by (simp add: createdECDSAWorld_eq)
     (simp add: op_defs test_defs getKeyTemplate_def KeyType_defs)

lemma Get_created:
  "fst (Get testTink testKMS ''key-i'' createdWorld) =
     Inr [\<lparr>algorithm = AES128GCMKeyTemplate, material = [0, 7],
           status = Primary, versionID = 1\<rparr>]"
  by (simp add: createdWorld_eq op_defs test_defs)

lemma Get_created_faulty:
  "fst (Get testTink testKMS ''key-i'' (deleteFailing createdWorld)) =
     Inr [\<lparr>algorithm = AES128GCMKeyTemplate, material = [0, 7],
           status = Primary, versionID = 1\<rparr>]"
  "fst (Get testTink testKMS ''key-i'' (putFailing createdWorld)) =
     Inr [\<lparr>algorithm = AES128GCMKeyTemplate, material = [0, 7],
           status = Primary, versionID = 1\<rparr>]"
  by (simp_all add: createdWorld_eq op_defs test_defs)

lemma getKeyTemplate_AES128GCM: "getKeyTemplate ''AES128GCM'' = Inr AES128GCMKeyTemplate"
  by (simp add: getKeyTemplate_def KeyType_defs)

lemma getKeyTemplate_unsupported: "getKeyTemplate ''unsupported'' = Inl UnsupportedKeyType"
  by (simp add: getKeyTemplate_def KeyType_defs)

subsection \<open>Get\<close>

text \<open>
  C9. \<^verbatim>\<open>Get\<close> is a pure read: whether it succeeds or fails, the stored mapping from
  identifiers to blobs is the same after the call as before, and the only call it makes
  on the namespace is one \<^verbatim>\<open>get\<close> for the identifier: no put, no delete. Nothing else of
  the world changes.
\<close>

theorem Get_pure_read:
  "data (kmsdb (snd (Get T l keyID w))) = data (kmsdb w) \<and>
   calls (kmsdb (snd (Get T l keyID w))) = calls (kmsdb w) @ [CallGet keyID] \<and>
   snd (Get T l keyID w) = w\<lparr>kmsdb := (kmsdb w)\<lparr>calls := calls (kmsdb w) @ [CallGet keyID]\<rparr>\<rparr>"
  by (simp add: Get_def getKeySet_snd)

lemma keyset_Read_cases:
  "keyset_Read T a blob =
     (case Decrypt a blob associatedData of
        Inl e \<Rightarrow> Inl DecryptionFailed
      | Inr p \<Rightarrow> (case Unmarshal T p of None \<Rightarrow> Inl DecodeError | Some kh \<Rightarrow> Inr kh))"
  by (simp add: keyset_Read_def)

text \<open>
  C7. \<^verbatim>\<open>Get\<close> tells absence from corruption. When no blob is stored under the
  identifier it fails with \<open>NotFound\<close>. When a blob is stored, the storage returns it,
  and the envelope AEAD rejects its seal (which is what the AEAD does with a blob that
  was altered, or that was sealed under another master key), it fails with
  \<open>DecryptionFailed\<close>, a different error; the result is then the error, and no handle is
  returned. On a namespace whose reads do not fail the two errors are never confused:
  \<open>NotFound\<close> is returned only for an absent blob, \<open>DecryptionFailed\<close> only for a stored
  blob that the AEAD rejects.
\<close>

theorem Get_absent_or_corrupt:
  "(data (kmsdb w) keyID = None \<longrightarrow> fst (Get T l keyID w) = Inl NotFound) \<and>
   (data (kmsdb w) keyID = Some blob \<and> errGet (kmsdb w) = None \<and>
    Decrypt (masterKeyEnvAEAD l) blob associatedData = Inl e \<longrightarrow>
      fst (Get T l keyID w) = Inl DecryptionFailed) \<and>
   (errGet (kmsdb w) = None \<longrightarrow>
      (fst (Get T l keyID w) = Inl NotFound \<longleftrightarrow> data (kmsdb w) keyID = None) \<and>
      (fst (Get T l keyID w) = Inl DecryptionFailed \<longleftrightarrow>
         (\<exists>b e'. data (kmsdb w) keyID = Some b \<and>
            Decrypt (masterKeyEnvAEAD l) b associatedData = Inl e'))) \<and>
   NotFound \<noteq> DecryptionFailed"
proof (cases "data (kmsdb w) keyID")
  case None
  then show ?thesis
    by (simp add: Get_def getKeySet_fst)
next
  case (Some b)
  then show ?thesis
    by (simp add: Get_def getKeySet_fst keyset_Read_cases split: sum.splits option.splits)
qed

theorem Get_absent_or_corrupt_witness:
  "data (kmsdb createdWorld) ''key-iii'' = None \<and>
   fst (Get testTink testKMS ''key-iii'' createdWorld) = Inl NotFound \<and>
   data (kmsdb (tampered ''key-i'' 4 createdWorld)) ''key-i'' =
     Some [42, 0, 1, 1, 253, 0, 7, 53] \<and>
   errGet (kmsdb (tampered ''key-i'' 4 createdWorld)) = None \<and>
   Decrypt (masterKeyEnvAEAD testKMS) [42, 0, 1, 1, 253, 0, 7, 53] associatedData =
     Inl DecryptionFailed \<and>
   fst (Get testTink testKMS ''key-i'' (tampered ''key-i'' 4 createdWorld)) =
     Inl DecryptionFailed \<and>
   fst (Get testTink otherKMS ''key-i'' createdWorld) = Inl DecryptionFailed"
proof -
  have a: "data (kmsdb createdWorld) ''key-iii'' = None"
    by (simp add: createdWorld_eq)
  have b: "fst (Get testTink testKMS ''key-iii'' createdWorld) = Inl NotFound"
    using Get_absent_or_corrupt [where w = createdWorld and keyID = "''key-iii''"
        and T = testTink and l = testKMS, THEN conjunct1] a
    by (rule mp)
  have c: "data (kmsdb (tampered ''key-i'' 4 createdWorld)) ''key-i'' =
      Some [42, 0, 1, 1, 253, 0, 7, 53]"
    by (simp add: createdWorld_eq tampered_def flipByte_def)
  have c0: "errGet (kmsdb (tampered ''key-i'' 4 createdWorld)) = None"
    by (simp add: createdWorld_eq tampered_def)
  have c': "Decrypt (masterKeyEnvAEAD testKMS) [42, 0, 1, 1, 253, 0, 7, 53] associatedData =
      Inl DecryptionFailed"
    by (simp add: test_defs)
  have d: "fst (Get testTink testKMS ''key-i'' (tampered ''key-i'' 4 createdWorld)) =
      Inl DecryptionFailed"
    using Get_absent_or_corrupt [where w = "tampered ''key-i'' 4 createdWorld"
        and keyID = "''key-i''" and blob = "[42, 0, 1, 1, 253, 0, 7, 53]" and l = testKMS
        and e = DecryptionFailed and T = testTink, THEN conjunct2, THEN conjunct1] c c0 c'
    by simp
  have e: "data (kmsdb createdWorld) ''key-i'' = Some [42, 0, 1, 1, 2, 0, 7, 53]"
    by (simp add: createdWorld_eq)
  have e0: "errGet (kmsdb createdWorld) = None"
    by (simp add: createdWorld_eq)
  have e': "Decrypt (masterKeyEnvAEAD otherKMS) [42, 0, 1, 1, 2, 0, 7, 53] associatedData =
      Inl DecryptionFailed"
    by (simp add: test_defs)
  have f: "fst (Get testTink otherKMS ''key-i'' createdWorld) = Inl DecryptionFailed"
    using Get_absent_or_corrupt [where w = createdWorld and keyID = "''key-i''"
        and blob = "[42, 0, 1, 1, 2, 0, 7, 53]" and l = otherKMS and e = DecryptionFailed
        and T = testTink, THEN conjunct2, THEN conjunct1] e e0 e'
    by simp
  show ?thesis
    by (intro conjI a b c c0 c' d f)
qed

text \<open>
  On the test instance, where the tag of the AEAD covers the whole blob, flipping any one
  byte of the stored blob makes \<^verbatim>\<open>Get\<close> fail with \<open>DecryptionFailed\<close>.
\<close>

lemma Get_tampered_test_instance:
  "map (\<lambda>i. fst (Get testTink testKMS ''key-i'' (tampered ''key-i'' i createdWorld)))
     [0, 1, 2, 3, 4, 5, 6, 7] =
   [Inl DecryptionFailed, Inl DecryptionFailed, Inl DecryptionFailed, Inl DecryptionFailed,
    Inl DecryptionFailed, Inl DecryptionFailed, Inl DecryptionFailed, Inl DecryptionFailed]"
  by (simp add: createdWorld_eq tampered_def flipByte_def op_defs test_defs)

text \<open>
  The scenario of the test file: with a storage engine that fails the read of a stored
  blob, \<^verbatim>\<open>Get\<close> and \<^verbatim>\<open>Rotate\<close> fail with the error of the engine.
\<close>

lemma Get_read_failure_test_instance:
  "fst (Get testTink testKMS ''key-i'' (getFailing createdWorld)) =
     Inl (CollaboratorError ''failed to get data'')"
  "fst (Rotate testTink testKMS ''AES128GCM'' ''key-i'' (getFailing createdWorld)) =
     Inl (CollaboratorError ''failed to get data'')"
  by (simp_all add: createdWorld_eq op_defs test_defs)

subsection \<open>Create\<close>

text \<open>
  C4. \<^verbatim>\<open>Create\<close> is atomic on failure. An empty tag and an unrecognized tag are rejected
  with the world untouched: no call reaches the storage. Whatever makes \<^verbatim>\<open>Create\<close> fail
  (the result \<open>Inl e\<close> is the Go return \<^verbatim>\<open>("", nil, err)\<close>: no identifier, no handle), the
  stored mapping is the same afterwards: no entry is left behind and no identifier names
  one. A failing key generation and a failing storage write both make \<^verbatim>\<open>Create\<close> fail.
\<close>

theorem Create_atomic_on_failure:
  "(kt = [] \<longrightarrow> Create T l kt w = (Inl MissingKeyType, w)) \<and>
   (kt \<noteq> [] \<and> getKeyTemplate kt = Inl err \<longrightarrow> Create T l kt w = (Inl UnsupportedKeyType, w)) \<and>
   (fst (Create T l kt w) = Inl e \<longrightarrow>
      data (kmsdb (snd (Create T l kt w))) = data (kmsdb w)) \<and>
   (getKeyTemplate kt = Inr t \<and> NewKeyData T (entropy w) t = Inl e1 \<longrightarrow>
      fst (Create T l kt w) = Inl e1 \<and> kmsdb (snd (Create T l kt w)) = kmsdb w) \<and>
   (errPut (kmsdb w) = Some e2 \<longrightarrow> (\<exists>e'. fst (Create T l kt w) = Inl e'))"
proof -
  have c1: "kt = [] \<longrightarrow> Create T l kt w = (Inl MissingKeyType, w)"
    by (simp add: Create_def)
  have c2: "kt \<noteq> [] \<and> getKeyTemplate kt = Inl err \<longrightarrow>
      Create T l kt w = (Inl UnsupportedKeyType, w)"
    using getKeyTemplate_Inl [of kt err] by (auto simp: Create_def)
  have c3: "fst (Create T l kt w) = Inl e \<longrightarrow>
      data (kmsdb (snd (Create T l kt w))) = data (kmsdb w)"
  proof
  assume fail: "fst (Create T l kt w) = Inl e"
  show "data (kmsdb (snd (Create T l kt w))) = data (kmsdb w)"
  proof (cases "kt = [] \<or> (\<exists>x. getKeyTemplate kt = Inl x)")
    case True
    then show ?thesis by (auto simp: Create_def)
  next
    case False
    then obtain t where t: "kt \<noteq> []" "getKeyTemplate kt = Inr t"
      by (cases "getKeyTemplate kt") auto
    obtain r1 w1 where h: "NewHandle T t w = (r1, w1)"
      by (cases "NewHandle T t w")
    have w1: "w1 = w\<lparr>entropy := Suc (entropy w)\<rparr>"
      using h Manager_Rotate_snd [of T "[]" t w] by (simp add: NewHandle_def)
    show ?thesis
    proof (cases r1)
      case (Inl x)
      then show ?thesis using t h w1 by (simp add: Create_def)
    next
      case (Inr kh)
      obtain r2 w2 where s: "storeKeySet T l kh w1 = (r2, w2)"
        by (cases "storeKeySet T l kh w1")
      show ?thesis
      proof (cases r2)
        case (Inl x)
        then show ?thesis
          using t h Inr s w1 storeKeySet_Inl [of T l kh w1 x w2] by (simp add: Create_def)
      next
        case (Inr kid)
        then show ?thesis
          using t h \<open>r1 = Inr kh\<close> s fail by (simp add: Create_def)
      qed
    qed
  qed
  qed
  have c4: "getKeyTemplate kt = Inr t \<and> NewKeyData T (entropy w) t = Inl e1 \<longrightarrow>
      fst (Create T l kt w) = Inl e1 \<and> kmsdb (snd (Create T l kt w)) = kmsdb w"
  proof
    assume a: "getKeyTemplate kt = Inr t \<and> NewKeyData T (entropy w) t = Inl e1"
    then have ne: "kt \<noteq> []"
      using getKeyTemplate_empty by auto
    show "fst (Create T l kt w) = Inl e1 \<and> kmsdb (snd (Create T l kt w)) = kmsdb w"
      using a ne by (simp add: Create_def NewHandle_def Manager_Rotate_def Let_def)
  qed
  have c5: "errPut (kmsdb w) = Some e2 \<longrightarrow> (\<exists>e'. fst (Create T l kt w) = Inl e')"
  proof
  assume p: "errPut (kmsdb w) = Some e2"
  show "\<exists>e'. fst (Create T l kt w) = Inl e'"
  proof (cases "kt = [] \<or> (\<exists>x. getKeyTemplate kt = Inl x)")
    case True
    then show ?thesis by (auto simp: Create_def)
  next
    case False
    then obtain t where t: "kt \<noteq> []" "getKeyTemplate kt = Inr t"
      by (cases "getKeyTemplate kt") auto
    obtain r1 w1 where h: "NewHandle T t w = (r1, w1)"
      by (cases "NewHandle T t w")
    have w1: "w1 = w\<lparr>entropy := Suc (entropy w)\<rparr>"
      using h Manager_Rotate_snd [of T "[]" t w] by (simp add: NewHandle_def)
    show ?thesis
    proof (cases r1)
      case (Inl x)
      then show ?thesis using t h by (simp add: Create_def)
    next
      case (Inr kh)
      have "errPut (kmsdb w1) = Some e2" using p w1 by simp
      then obtain e' where "fst (storeKeySet T l kh w1) = Inl e'"
        using storeKeySet_errPut by blast
      then show ?thesis
        using t h Inr by (cases "storeKeySet T l kh w1") (simp add: Create_def)
    qed
  qed
  qed
  show ?thesis
    by (rule conjI, rule c1, rule conjI, rule c2, rule conjI, rule c3, rule conjI, rule c4,
        rule c5)
qed

theorem Create_atomic_on_failure_witness:
  "Create testTink testKMS [] emptyWorld = (Inl MissingKeyType, emptyWorld) \<and>
   Create testTink testKMS ''unsupported'' emptyWorld = (Inl UnsupportedKeyType, emptyWorld) \<and>
   errPut (kmsdb putFailingWorld) = Some (CollaboratorError ''failed to put data'') \<and>
   fst (Create testTink testKMS ''AES128GCM'' putFailingWorld) =
     Inl (CollaboratorError ''failed to put data'') \<and>
   data (kmsdb (snd (Create testTink testKMS ''AES128GCM'' putFailingWorld))) =
     data (kmsdb putFailingWorld)"
proof -
  have a: "Create testTink testKMS [] emptyWorld = (Inl MissingKeyType, emptyWorld)"
    using Create_atomic_on_failure [where kt = "[]" and T = testTink and l = testKMS
        and w = emptyWorld]
    by simp
  have b: "Create testTink testKMS ''unsupported'' emptyWorld =
      (Inl UnsupportedKeyType, emptyWorld)"
    using Create_atomic_on_failure [where kt = "''unsupported''" and T = testTink
        and l = testKMS and w = emptyWorld and err = UnsupportedKeyType]
      getKeyTemplate_unsupported
    by simp
  have c: "errPut (kmsdb putFailingWorld) = Some (CollaboratorError ''failed to put data'')"
    by (simp add: test_defs)
  have d: "fst (Create testTink testKMS ''AES128GCM'' putFailingWorld) =
      Inl (CollaboratorError ''failed to put data'')"
    by (simp add: op_defs test_defs getKeyTemplate_def KeyType_defs)
  have e: "data (kmsdb (snd (Create testTink testKMS ''AES128GCM'' putFailingWorld))) =
      data (kmsdb putFailingWorld)"
    using Create_atomic_on_failure [where kt = "''AES128GCM''" and T = testTink
        and l = testKMS and w = putFailingWorld
        and e = "CollaboratorError ''failed to put data''"] d
    by simp
  show ?thesis
    using a b c d e by simp
qed

subsection \<open>Rotate: the failures\<close>

lemma Rotate_cases:
  obtains
    (load) e where "fst (getKeySet T l k w) = Inl e"
  | (tag) kh e where "fst (getKeySet T l k w) = Inr kh" "getKeyTemplate kt = Inl e"
  | (keygen) kh t e where "fst (getKeySet T l k w) = Inr kh" "getKeyTemplate kt = Inr t"
      "NewKeyData T (entropy w) t = Inl e"
  | (delete) kh t km where "fst (getKeySet T l k w) = Inr kh" "getKeyTemplate kt = Inr t"
      "NewKeyData T (entropy w) t = Inr km"
proof (cases "fst (getKeySet T l k w)")
  case (Inl e)
  then show ?thesis by (rule load)
next
  case kh: (Inr kh)
  show ?thesis
  proof (cases "getKeyTemplate kt")
    case (Inl e)
    with kh show ?thesis by (rule tag)
  next
    case t: (Inr t)
    show ?thesis
    proof (cases "NewKeyData T (entropy w) t")
      case (Inl e)
      with kh t show ?thesis by (rule keygen)
    next
      case (Inr km)
      with kh t show ?thesis by (rule delete)
    qed
  qed
qed

text \<open>
  C6 (as amended). \<^verbatim>\<open>Create\<close> rejects an empty or unrecognized tag before any call to
  a collaborator. \<^verbatim>\<open>Rotate\<close> does not: it first loads the keyset stored under the
  identifier (one storage read, then the unsealing), and only then resolves the tag. With
  an empty or unrecognized tag it returns the error of the load if the load fails, and the
  key-type-unrecognized error otherwise; either way it makes no put and no delete, and
  the stored keysets are as before.
\<close>

theorem Rotate_unrecognized_tag:
  assumes "getKeyTemplate kt = Inl err"
  shows "fst (Rotate T l kt keyID w) =
           (case fst (Get T l keyID w) of Inl e \<Rightarrow> Inl e | Inr kh \<Rightarrow> Inl UnsupportedKeyType) \<and>
         snd (Rotate T l kt keyID w) = snd (Get T l keyID w) \<and>
         data (kmsdb (snd (Rotate T l kt keyID w))) = data (kmsdb w) \<and>
         calls (kmsdb (snd (Rotate T l kt keyID w))) = calls (kmsdb w) @ [CallGet keyID] \<and>
         Create T l kt w = (Inl (if kt = [] then MissingKeyType else UnsupportedKeyType), w)"
proof -
  have err: "err = UnsupportedKeyType"
    using assms by (rule getKeyTemplate_Inl)
  have g: "snd (Get T l keyID w) = loaded keyID w"
    by (simp add: Get_def getKeySet_snd loaded_def)
  have r: "Rotate T l kt keyID w =
      (case fst (Get T l keyID w) of Inl e \<Rightarrow> Inl e | Inr kh \<Rightarrow> Inl UnsupportedKeyType,
       loaded keyID w)"
  proof (cases "fst (getKeySet T l keyID w)")
    case (Inl e)
    then show ?thesis by (simp add: Rotate_load_fails Get_def)
  next
    case (Inr kh)
    then show ?thesis using assms err by (simp add: Rotate_tag_fails Get_def)
  qed
  have c: "Create T l kt w = (Inl (if kt = [] then MissingKeyType else UnsupportedKeyType), w)"
    using assms err by (simp add: Create_def)
  show ?thesis
    using r g c by (simp add: loaded_def)
qed

theorem Rotate_unrecognized_tag_witness:
  "getKeyTemplate [] = Inl UnsupportedKeyType \<and>
   fst (Rotate testTink testKMS [] ''key-i'' createdWorld) = Inl UnsupportedKeyType \<and>
   data (kmsdb (snd (Rotate testTink testKMS [] ''key-i'' createdWorld))) =
     data (kmsdb createdWorld) \<and>
   calls (kmsdb (snd (Rotate testTink testKMS [] ''key-i'' createdWorld))) =
     calls (kmsdb createdWorld) @ [CallGet ''key-i''] \<and>
   Create testTink testKMS [] createdWorld = (Inl MissingKeyType, createdWorld)"
proof -
  note th = Rotate_unrecognized_tag [OF getKeyTemplate_empty, of testTink testKMS "''key-i''"
      createdWorld]
  have a: "fst (Rotate testTink testKMS [] ''key-i'' createdWorld) = Inl UnsupportedKeyType"
    using th [THEN conjunct1] by (simp add: Get_created)
  have b: "data (kmsdb (snd (Rotate testTink testKMS [] ''key-i'' createdWorld))) =
      data (kmsdb createdWorld)"
    using th by (elim conjE) assumption
  have c: "calls (kmsdb (snd (Rotate testTink testKMS [] ''key-i'' createdWorld))) =
      calls (kmsdb createdWorld) @ [CallGet ''key-i'']"
    using th by (elim conjE) assumption
  have d: "Create testTink testKMS [] createdWorld = (Inl MissingKeyType, createdWorld)"
    using th [THEN conjunct2, THEN conjunct2, THEN conjunct2, THEN conjunct2] by simp
  show ?thesis
    by (intro conjI getKeyTemplate_empty a b c d)
qed

text \<open>
  C6 as stated fails: on a namespace that holds nothing under the identifier,
  \<^verbatim>\<open>Rotate\<close> with the empty tag, and with an unrecognized one, fails with \<open>NotFound\<close>
  rather than with the error of the tag, and it has called the storage.
\<close>

theorem Rotate_validates_tag_first_counterexample:
  "getKeyTemplate [] = Inl UnsupportedKeyType \<and>
   fst (Rotate testTink testKMS [] ''key-i'' emptyWorld) = Inl NotFound \<and>
   calls (kmsdb (snd (Rotate testTink testKMS [] ''key-i'' emptyWorld))) = [CallGet ''key-i''] \<and>
   getKeyTemplate ''unsupported'' = Inl UnsupportedKeyType \<and>
   fst (Rotate testTink testKMS ''unsupported'' ''key-i'' emptyWorld) = Inl NotFound \<and>
   calls (kmsdb (snd (Rotate testTink testKMS ''unsupported'' ''key-i'' emptyWorld))) =
     [CallGet ''key-i'']"
  by (simp add: op_defs test_defs getKeyTemplate_def KeyType_defs)

text \<open>
  C10. When the delete of the old blob fails, no new blob has been written: with a storage
  engine that fails deletes, every \<^verbatim>\<open>Rotate\<close> fails, leaves the stored mapping as it was
  and makes no put (its calls are the read alone, or the read and the delete). When the
  steps before the delete succeed, the delete is made, and \<^verbatim>\<open>Rotate\<close> returns the error
  of the delete.
\<close>

theorem Rotate_delete_failure:
  assumes "errDelete (kmsdb w) = Some err"
  shows "(\<exists>e. fst (Rotate T l kt keyID w) = Inl e) \<and>
         data (kmsdb (snd (Rotate T l kt keyID w))) = data (kmsdb w) \<and>
         (calls (kmsdb (snd (Rotate T l kt keyID w))) = calls (kmsdb w) @ [CallGet keyID] \<or>
          calls (kmsdb (snd (Rotate T l kt keyID w))) =
            calls (kmsdb w) @ [CallGet keyID, CallDelete keyID]) \<and>
         (fst (Get T l keyID w) = Inr kh \<and> getKeyTemplate kt = Inr t \<and>
          NewKeyData T (entropy w) t = Inr km \<longrightarrow>
            fst (Rotate T l kt keyID w) = Inl err \<and>
            calls (kmsdb (snd (Rotate T l kt keyID w))) =
              calls (kmsdb w) @ [CallGet keyID, CallDelete keyID])"
proof (cases rule: Rotate_cases [where T = T and l = l and k = keyID and w = w and kt = kt])
  case (load e)
  then show ?thesis
    by (simp add: Rotate_load_fails Get_def loaded_def)
next
  case (tag kh' e)
  then show ?thesis
    by (simp add: Rotate_tag_fails Get_def loaded_def)
next
  case (keygen kh' t' e)
  then show ?thesis
    by (auto simp: Rotate_keygen_fails Get_def loaded_def rotated_def)
next
  case (delete kh' t' km')
  then show ?thesis
    using assms by (simp add: Rotate_delete_fails Get_def loaded_def rotated_def)
qed

theorem Rotate_delete_failure_witness:
  "errDelete (kmsdb (deleteFailing createdWorld)) =
     Some (CollaboratorError ''failed to delete data'') \<and>
   fst (Get testTink testKMS ''key-i'' (deleteFailing createdWorld)) =
     Inr [\<lparr>algorithm = AES128GCMKeyTemplate, material = [0, 7],
           status = Primary, versionID = 1\<rparr>] \<and>
   getKeyTemplate ''AES128GCM'' = Inr AES128GCMKeyTemplate \<and>
   NewKeyData testTink (entropy (deleteFailing createdWorld)) AES128GCMKeyTemplate =
     Inr [2, 7] \<and>
   fst (Rotate testTink testKMS ''AES128GCM'' ''key-i'' (deleteFailing createdWorld)) =
     Inl (CollaboratorError ''failed to delete data'') \<and>
   data (kmsdb (snd (Rotate testTink testKMS ''AES128GCM'' ''key-i''
     (deleteFailing createdWorld)))) = data (kmsdb (deleteFailing createdWorld)) \<and>
   calls (kmsdb (snd (Rotate testTink testKMS ''AES128GCM'' ''key-i''
     (deleteFailing createdWorld)))) =
     calls (kmsdb (deleteFailing createdWorld)) @ [CallGet ''key-i'', CallDelete ''key-i'']"
proof -
  have d: "errDelete (kmsdb (deleteFailing createdWorld)) =
      Some (CollaboratorError ''failed to delete data'')"
    by (simp add: test_defs)
  have g: "NewKeyData testTink (entropy (deleteFailing createdWorld)) AES128GCMKeyTemplate =
      Inr [2, 7]"
    by (simp add: createdWorld_eq test_defs)
  show ?thesis
    using Rotate_delete_failure [OF d, where T = testTink and l = testKMS
        and kt = "''AES128GCM''" and keyID = "''key-i''" and t = AES128GCMKeyTemplate
        and km = "[2, 7]"
        and kh = "[\<lparr>algorithm = AES128GCMKeyTemplate, material = [0, 7],
                      status = Primary, versionID = 1\<rparr>]"]
      d g Get_created_faulty(1) getKeyTemplate_AES128GCM
    by simp
qed

text \<open>
  C5. \<^verbatim>\<open>Rotate\<close> deletes the old blob first and writes the new one afterwards, and the
  two steps are not one transaction. Once the load, the template and the key generation
  have succeeded and the delete succeeds, the calls of \<^verbatim>\<open>Rotate\<close> on the namespace are
  the read, the delete and then at most one put. If the store of the updated handle then
  fails (the sealing fails, or the put does), \<^verbatim>\<open>Rotate\<close> returns that error, the old
  blob is gone and nothing was added: \<^verbatim>\<open>Get\<close> fails with \<open>NotFound\<close> on the old
  identifier, and returns under every other identifier what it returned before.
\<close>

theorem Rotate_not_transactional:
  assumes load: "fst (Get T l keyID w) = Inr kh"
      and tmpl: "getKeyTemplate kt = Inr t"
      and gen: "NewKeyData T (entropy w) t = Inr km"
      and del: "errDelete (kmsdb w) = None"
  shows "(calls (kmsdb (snd (Rotate T l kt keyID w))) =
            calls (kmsdb w) @ [CallGet keyID, CallDelete keyID] \<or>
          (\<exists>newID buf. calls (kmsdb (snd (Rotate T l kt keyID w))) =
            calls (kmsdb w) @ [CallGet keyID, CallDelete keyID, CallPut newID buf])) \<and>
         (fst (storeKeySet T l (rotatedHandle T kh t w km) (deleted keyID w)) = Inl err \<longrightarrow>
            fst (Rotate T l kt keyID w) = Inl err \<and>
            data (kmsdb (snd (Rotate T l kt keyID w))) = (data (kmsdb w))(keyID := None) \<and>
            fst (Get T l keyID (snd (Rotate T l kt keyID w))) = Inl NotFound \<and>
            (\<forall>k. k \<noteq> keyID \<longrightarrow>
               fst (Get T l k (snd (Rotate T l kt keyID w))) = fst (Get T l k w)))"
proof -
  let ?ukh = "rotatedHandle T kh t w km"
  obtain r4 w4 where s: "storeKeySet T l ?ukh (deleted keyID w) = (r4, w4)"
    by (cases "storeKeySet T l ?ukh (deleted keyID w)")
  have load': "fst (getKeySet T l keyID w) = Inr kh"
    using load by (simp add: Get_def)
  have R: "Rotate T l kt keyID w =
      (case r4 of Inl e \<Rightarrow> (Inl e, w4) | Inr newID \<Rightarrow> (Inr (newID, ?ukh), w4))"
    using Rotate_store [OF load' tmpl gen del] s by (simp split: sum.splits)
  show ?thesis
  proof (cases r4)
    case (Inl e)
    have w4: "data (kmsdb w4) = (data (kmsdb w))(keyID := None)"
      "calls (kmsdb w4) = calls (kmsdb w) @ [CallGet keyID, CallDelete keyID] \<or>
       (\<exists>k b. calls (kmsdb w4) = calls (kmsdb w) @ [CallGet keyID, CallDelete keyID, CallPut k b])"
      and g4: "errGet (kmsdb w4) = errGet (kmsdb w)"
      using storeKeySet_Inl [of T l ?ukh "deleted keyID w" e w4] s Inl
      by (auto simp: deleted_def rotated_def loaded_def)
    have "fst (Get T l k w4) = (if k = keyID then Inl NotFound else fst (Get T l k w))" for k
      using w4(1) g4 by (simp add: Get_def getKeySet_fst split: option.splits)
    then show ?thesis
      using R Inl s w4 by simp
  next
    case (Inr newID)
    obtain buf where "calls (kmsdb w4) =
        calls (kmsdb w) @ [CallGet keyID, CallDelete keyID, CallPut newID buf]"
      using storeKeySet_Inr [of T l ?ukh "deleted keyID w" newID w4] s Inr
      by (auto simp: deleted_def)
    then show ?thesis
      using R Inr s by simp
  qed
qed

theorem Rotate_not_transactional_witness:
  "fst (Get testTink testKMS ''key-i'' (putFailing createdWorld)) =
     Inr [\<lparr>algorithm = AES128GCMKeyTemplate, material = [0, 7],
           status = Primary, versionID = 1\<rparr>] \<and>
   getKeyTemplate ''AES128GCM'' = Inr AES128GCMKeyTemplate \<and>
   NewKeyData testTink (entropy (putFailing createdWorld)) AES128GCMKeyTemplate = Inr [2, 7] \<and>
   errDelete (kmsdb (putFailing createdWorld)) = None \<and>
   fst (Rotate testTink testKMS ''AES128GCM'' ''key-i'' (putFailing createdWorld)) =
     Inl (CollaboratorError ''failed to put data'') \<and>
   data (kmsdb (snd (Rotate testTink testKMS ''AES128GCM'' ''key-i''
     (putFailing createdWorld)))) = (data (kmsdb (putFailing createdWorld)))(''key-i'' := None) \<and>
   fst (Get testTink testKMS ''key-i''
     (snd (Rotate testTink testKMS ''AES128GCM'' ''key-i'' (putFailing createdWorld)))) =
     Inl NotFound"
proof -
  let ?w = "putFailing createdWorld"
  let ?kh = "[\<lparr>algorithm = AES128GCMKeyTemplate, material = [0, 7],
                status = Primary, versionID = 1\<rparr>]"
  have g: "NewKeyData testTink (entropy ?w) AES128GCMKeyTemplate = Inr [2, 7]"
    by (simp add: createdWorld_eq test_defs)
  have d: "errDelete (kmsdb ?w) = None"
    by (simp add: createdWorld_eq test_defs)
  have s: "fst (storeKeySet testTink testKMS
        (rotatedHandle testTink ?kh AES128GCMKeyTemplate ?w [2, 7]) (deleted ''key-i'' ?w)) =
      Inl (CollaboratorError ''failed to put data'')"
    by (simp add: createdWorld_eq op_defs test_defs rotatedHandle_def deleted_def
        rotated_def loaded_def)
  show ?thesis
    using Rotate_not_transactional [OF Get_created_faulty(2) getKeyTemplate_AES128GCM g d,
        where err = "CollaboratorError ''failed to put data''"]
      s g d Get_created_faulty(2) getKeyTemplate_AES128GCM
    by simp
qed

subsection \<open>The codec, and Create followed by Get\<close>

lemma codec_roundtrip:
  assumes "codecSound T a kh" and "Handle_Write T a kh = Inr blob"
  shows "keyset_Read T a blob = Inr kh"
  using assms by (simp add: codecSound_def Handle_Write_def keyset_Read_def)

lemma Create_Inr:
  assumes "Create T l kt w = (Inr (kID, kh), w')"
  shows "\<exists>t km buf.
           getKeyTemplate kt = Inr t \<and> NewKeyData T (entropy w) t = Inr km \<and>
           kh = [\<lparr>algorithm = t, material = km, status = Primary,
                   versionID = NewKeyID T (entropy w)\<rparr>] \<and>
           Handle_Write T (masterKeyEnvAEAD l) kh = Inr buf \<and>
           kID = NewKeysetID T (Suc (entropy w)) \<and>
           w' = w\<lparr>kmsdb := (kmsdb w)\<lparr>calls := calls (kmsdb w) @ [CallPut kID buf],
                                     data := (data (kmsdb w))(kID \<mapsto> buf)\<rparr>,
                  entropy := Suc (Suc (entropy w))\<rparr>"
proof -
  from assms obtain t where t: "kt \<noteq> []" "getKeyTemplate kt = Inr t"
    by (cases "getKeyTemplate kt") (auto simp: Create_def split: if_splits)
  obtain r1 w1 where h: "NewHandle T t w = (r1, w1)"
    by (cases "NewHandle T t w")
  have w1: "w1 = w\<lparr>entropy := Suc (entropy w)\<rparr>"
    using h Manager_Rotate_snd [of T "[]" t w] by (simp add: NewHandle_def)
  from assms t h obtain kh1 where r1: "r1 = Inr kh1"
    by (cases r1) (auto simp: Create_def)
  have s: "storeKeySet T l kh1 w1 = (Inr kID, w')" and kh: "kh = kh1"
    using assms t h r1
    by (cases "storeKeySet T l kh1 w1"; cases "fst (storeKeySet T l kh1 w1)";
        simp add: Create_def)+
  obtain km where km: "NewKeyData T (entropy w) t = Inr km"
    "kh1 = [\<lparr>algorithm = t, material = km, status = Primary,
             versionID = NewKeyID T (entropy w)\<rparr>]"
    using h r1 Manager_Rotate_fst [of T "[]" t w]
    by (cases "NewKeyData T (entropy w) t") (auto simp: NewHandle_def)
  from storeKeySet_Inr [OF s] obtain buf where
    "Handle_Write T (masterKeyEnvAEAD l) kh1 = Inr buf"
    "kID = NewKeysetID T (entropy w1)"
    "w' = w1\<lparr>kmsdb := (kmsdb w1)\<lparr>calls := calls (kmsdb w1) @ [CallPut kID buf],
                                   data := (data (kmsdb w1))(kID \<mapsto> buf)\<rparr>,
              entropy := Suc (entropy w1)\<rparr>"
    by blast
  then show ?thesis
    using t km kh w1 by simp
qed

text \<open>
  C2. Round trip. Where the codec is sound at a handle (the AEAD opens what it sealed, the
  parser reads back what was serialized), decoding the encoded handle under the same
  envelope AEAD yields the handle itself. In particular, after \<^verbatim>\<open>Create\<close> has returned
  an identifier and a handle, \<^verbatim>\<open>Get\<close> of the identifier (the storage not failing the
  read) returns that handle: same key material and version metadata, hence the same
  algorithms and number of key versions.
\<close>

theorem Create_Get_roundtrip:
  assumes "codecSound T (masterKeyEnvAEAD l) kh"
  shows "(Handle_Write T (masterKeyEnvAEAD l) kh = Inr blob \<longrightarrow>
            keyset_Read T (masterKeyEnvAEAD l) blob = Inr kh) \<and>
         (Create T l kt w = (Inr (kID, kh), w') \<and> errGet (kmsdb w') = None \<longrightarrow>
            fst (Get T l kID w') = Inr kh \<and>
            (\<exists>kh'. fst (Get T l kID w') = Inr kh' \<and>
               set (map algorithm kh') = set (map algorithm kh) \<and> length kh' = length kh))"
proof -
  have a: "Handle_Write T (masterKeyEnvAEAD l) kh = Inr blob \<longrightarrow>
      keyset_Read T (masterKeyEnvAEAD l) blob = Inr kh"
    using assms codec_roundtrip by blast
  have b: "fst (Get T l kID w') = Inr kh"
    if c: "Create T l kt w = (Inr (kID, kh), w')" and g: "errGet (kmsdb w') = None"
  proof -
    from Create_Inr [OF c] obtain buf where
      buf: "Handle_Write T (masterKeyEnvAEAD l) kh = Inr buf"
      and d: "data (kmsdb w') kID = Some buf"
      by auto
    have "keyset_Read T (masterKeyEnvAEAD l) buf = Inr kh"
      using assms buf by (rule codec_roundtrip)
    then show ?thesis
      using d g by (simp add: Get_def getKeySet_fst)
  qed
  show ?thesis
    using a b by auto
qed

lemma codecSound_test:
  "codecSound testTink (masterKeyEnvAEAD testKMS)
     [\<lparr>algorithm = AES128GCMKeyTemplate, material = [0, 7], status = Primary, versionID = 1\<rparr>]"
  "codecSound testTink (masterKeyEnvAEAD testKMS)
     [\<lparr>algorithm = ECDSAP256KeyWithoutPrefixTemplate, material = [0, 7], status = Primary,
       versionID = 1\<rparr>]"
  "codecSound testTink (masterKeyEnvAEAD testKMS)
     [\<lparr>algorithm = AES128GCMKeyTemplate, material = [0, 7], status = Secondary, versionID = 1\<rparr>,
      \<lparr>algorithm = AES128GCMKeyTemplate, material = [2, 7], status = Primary, versionID = 3\<rparr>]"
  by (simp_all add: codecSound_def test_defs)

theorem Create_Get_roundtrip_witness:
  "codecSound testTink (masterKeyEnvAEAD testKMS)
     [\<lparr>algorithm = AES128GCMKeyTemplate, material = [0, 7], status = Primary, versionID = 1\<rparr>] \<and>
   Handle_Write testTink (masterKeyEnvAEAD testKMS)
     [\<lparr>algorithm = AES128GCMKeyTemplate, material = [0, 7], status = Primary, versionID = 1\<rparr>] =
     Inr [42, 0, 1, 1, 2, 0, 7, 53] \<and>
   keyset_Read testTink (masterKeyEnvAEAD testKMS) [42, 0, 1, 1, 2, 0, 7, 53] =
     Inr [\<lparr>algorithm = AES128GCMKeyTemplate, material = [0, 7], status = Primary,
           versionID = 1\<rparr>] \<and>
   Create testTink testKMS ''AES128GCM'' emptyWorld =
     (Inr (''key-i'', [\<lparr>algorithm = AES128GCMKeyTemplate, material = [0, 7],
                         status = Primary, versionID = 1\<rparr>]), createdWorld) \<and>
   errGet (kmsdb createdWorld) = None \<and>
   fst (Get testTink testKMS ''key-i'' createdWorld) =
     Inr [\<lparr>algorithm = AES128GCMKeyTemplate, material = [0, 7], status = Primary,
           versionID = 1\<rparr>]"
proof -
  let ?kh = "[\<lparr>algorithm = AES128GCMKeyTemplate, material = [0, 7], status = Primary,
                versionID = 1\<rparr>]"
  have hw: "Handle_Write testTink (masterKeyEnvAEAD testKMS) ?kh =
      Inr [42, 0, 1, 1, 2, 0, 7, 53]"
    by (simp add: Handle_Write_def test_defs)
  note th = Create_Get_roundtrip [OF codecSound_test(1),
      where blob = "[42, 0, 1, 1, 2, 0, 7, 53]" and kt = "''AES128GCM''" and w = emptyWorld
        and kID = "''key-i''" and w' = createdWorld]
  have rd: "keyset_Read testTink (masterKeyEnvAEAD testKMS) [42, 0, 1, 1, 2, 0, 7, 53] =
      Inr ?kh"
    using th [THEN conjunct1] hw by (rule mp)
  have eg: "errGet (kmsdb createdWorld) = None"
    by (simp add: createdWorld_eq)
  have gt: "fst (Get testTink testKMS ''key-i'' createdWorld) = Inr ?kh"
    using th [THEN conjunct2] Create_AES128GCM eg by (elim impE conjE) (intro conjI)
  show ?thesis
    by (intro conjI codecSound_test(1) hw rd Create_AES128GCM eg gt)
qed

subsection \<open>Rotate: the success\<close>

lemma Rotate_Inr:
  assumes "Rotate T l kt keyID w = (Inr (newID, kh'), w')"
  shows "\<exists>kh t km buf.
           fst (Get T l keyID w) = Inr kh \<and> getKeyTemplate kt = Inr t \<and>
           NewKeyData T (entropy w) t = Inr km \<and> errDelete (kmsdb w) = None \<and>
           errGet (kmsdb w') = errGet (kmsdb w) \<and>
           kh' = rotatedHandle T kh t w km \<and>
           Handle_Write T (masterKeyEnvAEAD l) kh' = Inr buf \<and>
           newID = NewKeysetID T (Suc (entropy w)) \<and>
           data (kmsdb w') = ((data (kmsdb w))(keyID := None))(newID \<mapsto> buf) \<and>
           calls (kmsdb w') =
             calls (kmsdb w) @ [CallGet keyID, CallDelete keyID, CallPut newID buf] \<and>
           entropy w' = Suc (Suc (entropy w))"
proof (cases rule: Rotate_cases [where T = T and l = l and k = keyID and w = w and kt = kt])
  case (load e)
  then show ?thesis using assms by (simp add: Rotate_load_fails)
next
  case (tag kh e)
  then show ?thesis using assms by (simp add: Rotate_tag_fails)
next
  case (keygen kh t e)
  then show ?thesis using assms by (simp add: Rotate_keygen_fails)
next
  case (delete kh t km)
  show ?thesis
  proof (cases "errDelete (kmsdb w)")
    case (Some e)
    then show ?thesis using delete assms by (simp add: Rotate_delete_fails)
  next
    case None
    let ?ukh = "rotatedHandle T kh t w km"
    obtain r4 w4 where s: "storeKeySet T l ?ukh (deleted keyID w) = (r4, w4)"
      by (cases "storeKeySet T l ?ukh (deleted keyID w)")
    have R: "Rotate T l kt keyID w =
        (case r4 of Inl e \<Rightarrow> (Inl e, w4) | Inr nid \<Rightarrow> (Inr (nid, ?ukh), w4))"
      using Rotate_store [OF delete None] s by (simp split: sum.splits)
    from R assms have r4: "r4 = Inr newID" and kh': "kh' = ?ukh" and w4: "w4 = w'"
      by (cases r4; simp)+
    from storeKeySet_Inr [of T l ?ukh "deleted keyID w" newID w'] s r4 w4
    obtain buf where
      "Handle_Write T (masterKeyEnvAEAD l) ?ukh = Inr buf"
      "newID = NewKeysetID T (entropy (deleted keyID w))"
      "w' = (deleted keyID w)\<lparr>kmsdb := (kmsdb (deleted keyID w))
               \<lparr>calls := calls (kmsdb (deleted keyID w)) @ [CallPut newID buf],
                data := (data (kmsdb (deleted keyID w)))(newID \<mapsto> buf)\<rparr>,
             entropy := Suc (entropy (deleted keyID w))\<rparr>"
      by auto
    then show ?thesis
      using delete None kh'
      by (simp add: Get_def deleted_def rotated_def loaded_def)
  qed
qed

text \<open>
  The hypothesis on the namespace is an invariant: it holds of the empty namespace, and
  every operation preserves it.
\<close>

lemma mintedEarlier_empty: "mintedEarlier T emptyWorld"
  by (simp add: mintedEarlier_def emptyWorld_def emptyStore_def)

lemma mintedEarlier_Get:
  "mintedEarlier T w \<Longrightarrow> mintedEarlier T (snd (Get T l k w))"
  by (simp add: mintedEarlier_def Get_def getKeySet_snd)

lemma mintedEarlier_mono:
  assumes "mintedEarlier T w"
    and "\<And>k. k \<in> dom (data (kmsdb w')) \<Longrightarrow>
           k \<in> dom (data (kmsdb w)) \<or> (\<exists>n<entropy w'. k = NewKeysetID T n)"
    and "entropy w \<le> entropy w'"
  shows "mintedEarlier T w'"
  unfolding mintedEarlier_def
proof (intro allI impI)
  fix k assume "k \<in> dom (data (kmsdb w'))"
  then consider "k \<in> dom (data (kmsdb w))" | "\<exists>n<entropy w'. k = NewKeysetID T n"
    using assms(2) by blast
  then show "\<exists>n<entropy w'. k = NewKeysetID T n"
  proof cases
    case 1
    then obtain n where "n < entropy w" "k = NewKeysetID T n"
      using assms(1) by (auto simp: mintedEarlier_def)
    then show ?thesis using assms(3) by (intro exI [of _ n]) simp
  next
    case 2
    then show ?thesis .
  qed
qed

lemma mintedEarlier_Create:
  assumes "mintedEarlier T w"
  shows "mintedEarlier T (snd (Create T l kt w))"
proof (cases "fst (Create T l kt w)")
  case (Inl e)
  have d: "data (kmsdb (snd (Create T l kt w))) = data (kmsdb w)"
  proof (cases "kt = [] \<or> (\<exists>x. getKeyTemplate kt = Inl x)")
    case True
    then show ?thesis by (auto simp: Create_def)
  next
    case False
    then obtain t where t: "kt \<noteq> []" "getKeyTemplate kt = Inr t"
      by (cases "getKeyTemplate kt") auto
    obtain r1 w1 where h: "NewHandle T t w = (r1, w1)"
      by (cases "NewHandle T t w")
    have w1: "w1 = w\<lparr>entropy := Suc (entropy w)\<rparr>"
      using h Manager_Rotate_snd [of T "[]" t w] by (simp add: NewHandle_def)
    show ?thesis
    proof (cases r1)
      case (Inl x)
      then show ?thesis using t h w1 by (simp add: Create_def)
    next
      case (Inr kh)
      obtain r2 w2 where s: "storeKeySet T l kh w1 = (r2, w2)"
        by (cases "storeKeySet T l kh w1")
      show ?thesis
      proof (cases r2)
        case (Inl x)
        then show ?thesis
          using t h Inr s w1 storeKeySet_Inl [of T l kh w1 x w2] by (simp add: Create_def)
      next
        case r2: (Inr kid)
        then show ?thesis
          using t h Inr s \<open>fst (Create T l kt w) = Inl e\<close> by (simp add: Create_def)
      qed
    qed
  qed
  have e: "entropy w \<le> entropy (snd (Create T l kt w))"
    by (auto simp: Create_def NewHandle_def Manager_Rotate_def storeKeySet_def
        storeWriter_Write_def Store_Put_def Let_def split: sum.splits option.splits)
  show ?thesis
    by (rule mintedEarlier_mono [OF assms _ e]) (simp add: d)
next
  case (Inr p)
  obtain kID kh where p: "p = (kID, kh)" by (cases p)
  have c: "Create T l kt w = (Inr (kID, kh), snd (Create T l kt w))"
    using Inr p by (simp add: prod_eq_iff)
  from Create_Inr [OF c] obtain buf where
    k: "kID = NewKeysetID T (Suc (entropy w))"
    and w': "snd (Create T l kt w) =
        w\<lparr>kmsdb := (kmsdb w)\<lparr>calls := calls (kmsdb w) @ [CallPut kID buf],
                                data := (data (kmsdb w))(kID \<mapsto> buf)\<rparr>,
           entropy := Suc (Suc (entropy w))\<rparr>"
    by auto
  show ?thesis
  proof (rule mintedEarlier_mono [OF assms])
    fix x assume "x \<in> dom (data (kmsdb (snd (Create T l kt w))))"
    then have "x = kID \<or> x \<in> dom (data (kmsdb w))"
      by (subst (asm) w') (auto split: if_splits)
    then show "x \<in> dom (data (kmsdb w)) \<or>
        (\<exists>n<entropy (snd (Create T l kt w)). x = NewKeysetID T n)"
      using k by (subst w') auto
  next
    show "entropy w \<le> entropy (snd (Create T l kt w))"
      by (subst w') simp
  qed
qed

lemma mintedEarlier_Rotate:
  assumes "mintedEarlier T w"
  shows "mintedEarlier T (snd (Rotate T l kt k w))"
proof (cases "fst (Rotate T l kt k w)")
  case (Inr p)
  obtain newID kh' where p: "p = (newID, kh')" by (cases p)
  have c: "Rotate T l kt k w = (Inr (newID, kh'), snd (Rotate T l kt k w))"
    using Inr p by (simp add: prod_eq_iff)
  from Rotate_Inr [OF c] obtain buf where
    new: "newID = NewKeysetID T (Suc (entropy w))"
    and d: "data (kmsdb (snd (Rotate T l kt k w))) =
        ((data (kmsdb w))(k := None))(newID \<mapsto> buf)"
    and e: "entropy (snd (Rotate T l kt k w)) = Suc (Suc (entropy w))"
    by blast
  show ?thesis
  proof (rule mintedEarlier_mono [OF assms])
    fix x assume "x \<in> dom (data (kmsdb (snd (Rotate T l kt k w))))"
    then have "x = newID \<or> x \<in> dom (data (kmsdb w))"
      by (subst (asm) d) (auto split: if_splits)
    then show "x \<in> dom (data (kmsdb w)) \<or>
        (\<exists>n<entropy (snd (Rotate T l kt k w)). x = NewKeysetID T n)"
      using new e by auto
  next
    show "entropy w \<le> entropy (snd (Rotate T l kt k w))"
      using e by simp
  qed
next
  case (Inl err)
  have "dom (data (kmsdb (snd (Rotate T l kt k w)))) \<subseteq> dom (data (kmsdb w)) \<and>
      entropy w \<le> entropy (snd (Rotate T l kt k w))"
  proof (cases rule: Rotate_cases [where T = T and l = l and k = k and w = w and kt = kt])
    case (load e)
    then show ?thesis by (simp add: Rotate_load_fails loaded_def)
  next
    case (tag kh e)
    then show ?thesis by (simp add: Rotate_tag_fails loaded_def)
  next
    case (keygen kh t e)
    then show ?thesis by (simp add: Rotate_keygen_fails loaded_def rotated_def)
  next
    case (delete kh t km)
    show ?thesis
    proof (cases "errDelete (kmsdb w)")
      case (Some e)
      then show ?thesis
        using delete by (simp add: Rotate_delete_fails loaded_def rotated_def)
    next
      case None
      let ?ukh = "rotatedHandle T kh t w km"
      obtain r4 w4 where s: "storeKeySet T l ?ukh (deleted k w) = (r4, w4)"
        by (cases "storeKeySet T l ?ukh (deleted k w)")
      have R: "Rotate T l kt k w =
          (case r4 of Inl e \<Rightarrow> (Inl e, w4) | Inr nid \<Rightarrow> (Inr (nid, ?ukh), w4))"
        using Rotate_store [OF delete None] s by (simp split: sum.splits)
      from R Inl obtain e where r4: "r4 = Inl e"
        by (cases r4) auto
      from storeKeySet_Inl [of T l ?ukh "deleted k w" e w4] s r4
      have "data (kmsdb w4) = (data (kmsdb w))(k := None)" "entropy w \<le> entropy w4"
        by (auto simp: deleted_def rotated_def loaded_def)
      then show ?thesis
        using R r4 by auto
    qed
  qed
  then show ?thesis
    using assms by (intro mintedEarlier_mono [OF assms]) auto
qed

lemma ExportPubKeyBytes_snd: "snd (ExportPubKeyBytes T l k w) = loaded k w"
  by (subst ExportPubKeyBytes_def, subst getKeySet_eq) (simp split: sum.splits)

lemma mintedEarlier_ExportPubKeyBytes:
  "mintedEarlier T w \<Longrightarrow> mintedEarlier T (snd (ExportPubKeyBytes T l k w))"
  by (simp add: mintedEarlier_def ExportPubKeyBytes_snd loaded_def)

lemma neverReused_test: "neverReused testTink"
  by (auto simp: neverReused_def testTink_def inj_def dest: arg_cong [where f = length])

lemma mintedEarlier_created: "mintedEarlier testTink createdWorld"
  unfolding createdWorld_def by (rule mintedEarlier_Create [OF mintedEarlier_empty])

text \<open>
  C1. Rotation mints a new identifier. In a namespace whose identifiers were minted by the
  scheme, by a scheme that never repeats an identifier, a successful \<^verbatim>\<open>Rotate\<close> returns an
  identifier different from the old one together with the updated handle. Afterwards
  \<^verbatim>\<open>Get\<close> of the old identifier fails with \<open>NotFound\<close>, and \<^verbatim>\<open>Get\<close> of the new identifier
  returns the updated handle (the codec being sound at it), which has one key version
  more than the handle that was stored before the rotation.
\<close>

theorem Rotate_new_identifier:
  assumes nr: "neverReused T"
      and me: "mintedEarlier T w"
      and cs: "codecSound T (masterKeyEnvAEAD l) kh'"
      and rot: "Rotate T l kt keyID w = (Inr (newID, kh'), w')"
  shows "newID \<noteq> keyID \<and>
         fst (Get T l keyID w') = Inl NotFound \<and>
         fst (Get T l newID w') = Inr kh' \<and>
         (\<exists>kh. fst (Get T l keyID w) = Inr kh \<and> length kh' = length kh + 1)"
proof -
  from Rotate_Inr [OF rot] obtain kh t km buf where
    load: "fst (Get T l keyID w) = Inr kh"
    and kh': "kh' = rotatedHandle T kh t w km"
    and buf: "Handle_Write T (masterKeyEnvAEAD l) kh' = Inr buf"
    and new: "newID = NewKeysetID T (Suc (entropy w))"
    and d: "data (kmsdb w') = ((data (kmsdb w))(keyID := None))(newID \<mapsto> buf)"
    and g: "errGet (kmsdb w') = errGet (kmsdb w)"
    by blast
  have "keyID \<in> dom (data (kmsdb w)) \<and> errGet (kmsdb w) = None"
    using load by (auto simp: Get_def getKeySet_fst split: option.splits)
  then have g': "errGet (kmsdb w') = None" and "keyID \<in> dom (data (kmsdb w))"
    using g by simp_all
  then obtain n where n: "n < entropy w" "keyID = NewKeysetID T n"
    using me by (auto simp: mintedEarlier_def)
  have ne: "newID \<noteq> keyID"
  proof
    assume "newID = keyID"
    then have "NewKeysetID T (Suc (entropy w)) = NewKeysetID T n"
      using new n by simp
    then have "Suc (entropy w) = n"
      using nr by (simp add: neverReused_def inj_eq)
    then show False using n by simp
  qed
  have old: "fst (Get T l keyID w') = Inl NotFound"
    using d ne by (simp add: Get_def getKeySet_fst)
  have "keyset_Read T (masterKeyEnvAEAD l) buf = Inr kh'"
    using cs buf by (rule codec_roundtrip)
  then have nw: "fst (Get T l newID w') = Inr kh'"
    using d g' by (simp add: Get_def getKeySet_fst)
  have len: "length kh' = length kh + 1"
    using kh' by (simp add: rotatedHandle_def)
  show ?thesis
    using ne old nw load len by blast
qed

lemma replicate_3: "replicate 3 x = [x, x, x]"
  by (simp add: numeral_3_eq_3)

lemma Rotate_created:
  "Rotate testTink testKMS ''AES128GCM'' ''key-i'' createdWorld =
     (Inr (''key-iii'',
        [\<lparr>algorithm = AES128GCMKeyTemplate, material = [0, 7], status = Secondary,
           versionID = 1\<rparr>,
         \<lparr>algorithm = AES128GCMKeyTemplate, material = [2, 7], status = Primary,
           versionID = 3\<rparr>]),
      snd (Rotate testTink testKMS ''AES128GCM'' ''key-i'' createdWorld))"
  by (simp add: createdWorld_eq op_defs test_defs getKeyTemplate_def KeyType_defs
      replicate_3)

theorem Rotate_new_identifier_witness:
  "neverReused testTink \<and> mintedEarlier testTink createdWorld \<and>
   fst (Rotate testTink testKMS ''AES128GCM'' ''key-i'' createdWorld) =
     Inr (''key-iii'',
        [\<lparr>algorithm = AES128GCMKeyTemplate, material = [0, 7], status = Secondary,
           versionID = 1\<rparr>,
         \<lparr>algorithm = AES128GCMKeyTemplate, material = [2, 7], status = Primary,
           versionID = 3\<rparr>]) \<and>
   ''key-iii'' \<noteq> ''key-i'' \<and>
   fst (Get testTink testKMS ''key-i''
     (snd (Rotate testTink testKMS ''AES128GCM'' ''key-i'' createdWorld))) = Inl NotFound \<and>
   fst (Get testTink testKMS ''key-iii''
     (snd (Rotate testTink testKMS ''AES128GCM'' ''key-i'' createdWorld))) =
     Inr [\<lparr>algorithm = AES128GCMKeyTemplate, material = [0, 7], status = Secondary,
           versionID = 1\<rparr>,
          \<lparr>algorithm = AES128GCMKeyTemplate, material = [2, 7], status = Primary,
           versionID = 3\<rparr>] \<and>
   fst (Get testTink testKMS ''key-i'' createdWorld) =
     Inr [\<lparr>algorithm = AES128GCMKeyTemplate, material = [0, 7], status = Primary,
           versionID = 1\<rparr>]"
proof -
  note th = Rotate_new_identifier [OF neverReused_test mintedEarlier_created
      codecSound_test(3) Rotate_created]
  have a: "fst (Rotate testTink testKMS ''AES128GCM'' ''key-i'' createdWorld) =
     Inr (''key-iii'',
        [\<lparr>algorithm = AES128GCMKeyTemplate, material = [0, 7], status = Secondary,
           versionID = 1\<rparr>,
         \<lparr>algorithm = AES128GCMKeyTemplate, material = [2, 7], status = Primary,
           versionID = 3\<rparr>])"
    by (subst Rotate_created) simp
  show ?thesis
    by (intro conjI neverReused_test mintedEarlier_created a th [THEN conjunct1]
        th [THEN conjunct2, THEN conjunct1] th [THEN conjunct2, THEN conjunct2, THEN conjunct1]
        Get_created)
qed

subsection \<open>ExportPubKeyBytes\<close>

lemma ExportPubKeyBytes_fst:
  "fst (ExportPubKeyBytes T l k w) =
     (case fst (getKeySet T l k w) of
        Inl e \<Rightarrow> Inl e
      | Inr kh \<Rightarrow>
          (case Handle_Public T kh of Inl e \<Rightarrow> Inl e | Inr p \<Rightarrow> WriteWithNoSecrets p))"
  by (subst ExportPubKeyBytes_def, subst getKeySet_eq) (simp split: sum.splits)

lemma Handle_Public_symmetric_first:
  "\<not> asymmetric (algorithm v) \<Longrightarrow> Handle_Public T (v # vs) = Inl NotAsymmetricKey"
  by simp

lemma export_single_primary:
  assumes "asymmetric (algorithm v)" and "status v = Primary"
  shows "(case Handle_Public T [v] of Inl e \<Rightarrow> Inl e | Inr p \<Rightarrow> WriteWithNoSecrets p) =
         GetPublicKeyData T (algorithm v) (material v)"
  using assms by (simp split: sum.splits)

text \<open>
  C8. Export is for asymmetric keys only. On a namespace whose reads do not fail: for
  the keyset that \<^verbatim>\<open>Create\<close> has stored from a symmetric tag (AEAD or MAC),
  \<^verbatim>\<open>ExportPubKeyBytes\<close> fails with \<open>NotAsymmetricKey\<close>; so it does for every stored keyset whose first (oldest) version
  is symmetric, however often it was rotated. For the keyset created from an asymmetric
  tag (ECDSA or EdDSA) it returns exactly what the library derives as the public
  projection of the generated key, and nothing else: it succeeds, with non-empty bytes,
  wherever the library projects that key.
\<close>

theorem ExportPubKeyBytes_asymmetric_only:
  assumes cs: "codecSound T (masterKeyEnvAEAD l) kh"
      and cr: "Create T l kt w = (Inr (kID, kh), w')"
      and tm: "getKeyTemplate kt = Inr t"
      and rd: "errGet (kmsdb w) = None"
  shows "(\<not> asymmetric t \<longrightarrow> fst (ExportPubKeyBytes T l kID w') = Inl NotAsymmetricKey) \<and>
         (asymmetric t \<longrightarrow>
            fst (ExportPubKeyBytes T l kID w') = GetPublicKeyData T t (material (hd kh))) \<and>
         (asymmetric t \<and> publicProjectable T (hd kh) \<longrightarrow>
            (\<exists>pk. fst (ExportPubKeyBytes T l kID w') = Inr pk \<and> pk \<noteq> [] \<and>
               GetPublicKeyData T t (material (hd kh)) = Inr pk)) \<and>
         (fst (Get T l k w0) = Inr (v # vs) \<and> \<not> asymmetric (algorithm v) \<longrightarrow>
            fst (ExportPubKeyBytes T l k w0) = Inl NotAsymmetricKey)"
proof -
  from Create_Inr [OF cr] tm obtain km buf where
    kh: "kh = [\<lparr>algorithm = t, material = km, status = Primary,
                versionID = NewKeyID T (entropy w)\<rparr>]"
    and buf: "Handle_Write T (masterKeyEnvAEAD l) kh = Inr buf"
    and d: "data (kmsdb w') kID = Some buf"
    and rd': "errGet (kmsdb w') = errGet (kmsdb w)"
    by auto
  have "keyset_Read T (masterKeyEnvAEAD l) buf = Inr kh"
    using cs buf by (rule codec_roundtrip)
  then have g: "fst (getKeySet T l kID w') = Inr kh"
    using d rd rd' by (simp add: getKeySet_fst)
  have a: "\<not> asymmetric t \<longrightarrow> fst (ExportPubKeyBytes T l kID w') = Inl NotAsymmetricKey"
    using g kh by (simp add: ExportPubKeyBytes_fst)
  have b: "asymmetric t \<longrightarrow>
      fst (ExportPubKeyBytes T l kID w') = GetPublicKeyData T t (material (hd kh))"
    using g kh by (simp add: ExportPubKeyBytes_fst split: sum.splits)
  have c: "asymmetric t \<and> publicProjectable T (hd kh) \<longrightarrow>
      (\<exists>pk. fst (ExportPubKeyBytes T l kID w') = Inr pk \<and> pk \<noteq> [] \<and>
         GetPublicKeyData T t (material (hd kh)) = Inr pk)"
    using b kh by (auto simp: publicProjectable_def split: sum.splits)
  have e: "fst (Get T l k w0) = Inr (v # vs) \<and> \<not> asymmetric (algorithm v) \<longrightarrow>
      fst (ExportPubKeyBytes T l k w0) = Inl NotAsymmetricKey"
    by (simp add: Get_def ExportPubKeyBytes_fst)
  show ?thesis
    by (rule conjI, rule a, rule conjI, rule b, rule conjI, rule c, rule e)
qed

theorem ExportPubKeyBytes_asymmetric_only_witness:
  "\<not> asymmetric AES128GCMKeyTemplate \<and>
   fst (ExportPubKeyBytes testTink testKMS ''key-i'' createdWorld) = Inl NotAsymmetricKey \<and>
   asymmetric ECDSAP256KeyWithoutPrefixTemplate \<and>
   publicProjectable testTink
     \<lparr>algorithm = ECDSAP256KeyWithoutPrefixTemplate, material = [0, 7], status = Primary,
      versionID = 1\<rparr> \<and>
   fst (ExportPubKeyBytes testTink testKMS ''key-i'' createdECDSAWorld) = Inr [4, 0]"
proof -
  let ?aes = "[\<lparr>algorithm = AES128GCMKeyTemplate, material = [0, 7], status = Primary,
                 versionID = 1\<rparr>]"
  let ?ec = "[\<lparr>algorithm = ECDSAP256KeyWithoutPrefixTemplate, material = [0, 7],
                status = Primary, versionID = 1\<rparr>]"
  have t1: "getKeyTemplate ''AES128GCM'' = Inr AES128GCMKeyTemplate"
    and t2: "getKeyTemplate ECDSAP256Type = Inr ECDSAP256KeyWithoutPrefixTemplate"
    by (simp_all add: getKeyTemplate_def KeyType_defs)
  have s: "\<not> asymmetric AES128GCMKeyTemplate"
    and a: "asymmetric ECDSAP256KeyWithoutPrefixTemplate"
    by (simp_all add: asymmetric_def)
  have p: "publicProjectable testTink (hd ?ec)"
    by (simp add: publicProjectable_def testTink_def)
  have g: "GetPublicKeyData testTink ECDSAP256KeyWithoutPrefixTemplate (material (hd ?ec)) =
      Inr [4, 0]"
    by (simp add: testTink_def)
  have rd: "errGet (kmsdb emptyWorld) = None"
    by (simp add: test_defs)
  note th1 = ExportPubKeyBytes_asymmetric_only [OF codecSound_test(1) Create_AES128GCM t1 rd]
  note th2 = ExportPubKeyBytes_asymmetric_only [OF codecSound_test(2) Create_ECDSAP256 t2 rd]
  have x: "fst (ExportPubKeyBytes testTink testKMS ''key-i'' createdWorld) =
      Inl NotAsymmetricKey"
    using th1 [THEN conjunct1] s by (rule mp)
  have y: "fst (ExportPubKeyBytes testTink testKMS ''key-i'' createdECDSAWorld) = Inr [4, 0]"
    using th2 [THEN conjunct2, THEN conjunct1] a g by simp
  show ?thesis
    using s x a p y by simp
qed

end
